theory Spec2Isabelle
  imports Complex_Main "HOL-Library.Word"
begin

section \<open>JavaScript values\<close>

text \<open>
  A JavaScript string is a sequence of 16-bit code units. String literals of the source
  are ASCII and are written through \<open>js\<close>.
\<close>

type_synonym js_string = "16 word list"

definition js :: "string \<Rightarrow> js_string" where
  "js s = map of_char s"

text \<open>
  \<open>String.prototype.trim\<close> removes WhiteSpace and LineTerminator code points from both
  ends (ECMA-262): TAB, VT, FF, SP, NBSP, ZWNBSP, the Unicode space
  separators, and LF, CR, LS, PS. All of them are single code units.
\<close>

definition isWhiteSpace :: "16 word \<Rightarrow> bool" where
  "isWhiteSpace c =
     (c \<in> set [0x0009, 0x000A, 0x000B, 0x000C, 0x000D, 0x0020, 0x00A0, 0x1680,
                0x2000, 0x2001, 0x2002, 0x2003, 0x2004, 0x2005, 0x2006, 0x2007,
                0x2008, 0x2009, 0x200A, 0x2028, 0x2029, 0x202F, 0x205F, 0x3000,
                0xFEFF])"

definition trim :: "js_string \<Rightarrow> js_string" where
  "trim s = rev (dropWhile isWhiteSpace (rev (dropWhile isWhiteSpace s)))"

text \<open>
  A number is an IEEE double; the finite ones are read as the real they denote.
  A number is falsy when it is zero or NaN.
\<close>

datatype js_number = Finite real | PosInfinity | NegInfinity | NaN

text \<open>What \<open>JSON.parse\<close> returns. The properties of an object are kept in order.\<close>

datatype json =
    JNull
  | JBool bool
  | JNumber js_number
  | JString js_string
  | JArray "json list"
  | JObject "(js_string \<times> json) list"

text \<open>
  What a \<open>throw\<close> carries: \<open>Error msg\<close> is \<open>new Error(msg)\<close> or an error of a
  library (the model client, the database client).
\<close>

datatype js_error = Error js_string | TypeError | SyntaxError

text \<open>
  A value read from a property or returned by a call may be \<open>undefined\<close>: \<open>None\<close>.
  \<open>truthy\<close> is ToBoolean on such a value.
\<close>

fun truthy :: "json option \<Rightarrow> bool" where
  "truthy None = False"
| "truthy (Some JNull) = False"
| "truthy (Some (JBool b)) = b"
| "truthy (Some (JNumber n)) = (n \<noteq> Finite 0 \<and> n \<noteq> NaN)"
| "truthy (Some (JString s)) = (s \<noteq> [])"
| "truthy (Some (JArray xs)) = True"
| "truthy (Some (JObject kvs)) = True"

section \<open>The generative model client and the runtime\<close>

record GenerationConfig =
  responseMimeType :: js_string
  temperature :: real

record ModelParams =
  model :: js_string
  generationConfig :: "GenerationConfig option"

record ExpenseRecord =
  expense_id :: js_string
  expense_amount :: js_number
  expense_category :: js_string
  expense_description :: js_string
  expense_date :: js_string

record ExpenseSummary =
  amount :: js_number
  category :: js_string
  description :: js_string
  date :: js_string

text \<open>
  What the functions call and do not define:
  \<^item> \<open>generateContent params prompt\<close> is
    \<open>genAI.getGenerativeModel(params).generateContent(prompt)\<close> followed by
    \<open>result.response.text()\<close>: it throws (\<open>Inl\<close>) or gives the text, \<open>None\<close> when the
    text is \<open>undefined\<close>;
  \<^item> \<open>JSON_parse\<close> and \<open>JSON_stringify\<close> (with indentation 2) are the built-ins;
  \<^item> \<open>Date_now k\<close> is what the \<open>k\<close>-th call of \<open>Date.now()\<close> within one invocation
    returns (counted from 0).
\<close>

record runtime =
  generateContent :: "ModelParams \<Rightarrow> js_string \<Rightarrow> js_error + js_string option"
  JSON_parse :: "js_string \<Rightarrow> js_error + json"
  JSON_stringify :: "ExpenseSummary list \<Rightarrow> js_string"
  Date_now :: "nat \<Rightarrow> int"

definition modelName :: js_string where
  "modelName = js ''gemini-1.5-flash-latest''"

text \<open>\<open>getGenerativeModel({ model: modelName })\<close>: no generation configuration.\<close>

definition plainModel :: ModelParams where
  "plainModel = \<lparr>model = modelName, generationConfig = None\<rparr>"

text \<open>
  A template literal written over several lines: its lines, joined by line feeds.
\<close>

definition newline :: js_string where
  "newline = [0x000A]"

definition template_lines :: "js_string list \<Rightarrow> js_string" where
  "template_lines ls = concat (map (\<lambda>l. l @ newline) (butlast ls)) @ last ls"

section \<open>categorizeExpense\<close>

definition categorizePrompt :: "js_string \<Rightarrow> js_string" where
  \<open>categorizePrompt description' = template_lines
     [js ''You are an expense categorization AI. Categorize the following expense into one of these categories: Food, Transportation, Entertainment, Shopping, Bills, Healthcare, Other. Respond with only the single category name.'',
      js ''    '',
      js ''    Expense: "'' @ description' @ js ''"'']\<close>

definition validCategories :: "js_string list" where
  "validCategories =
     [js ''Food'', js ''Transportation'', js ''Entertainment'', js ''Shopping'',
      js ''Bills'', js ''Healthcare'', js ''Other'']"

text \<open>\<open>category || ''\<close> on a string that may be \<open>undefined\<close>.\<close>

definition or_empty :: "js_string option \<Rightarrow> js_string" where
  "or_empty category' =
     (case category' of None \<Rightarrow> [] | Some c \<Rightarrow> if c \<noteq> [] then c else [])"

text \<open>
  The call of the model and \<open>result.response.text()\<close>; then the rest of the \<open>try\<close>
  block. \<open>text()?.trim()\<close> is \<open>undefined\<close> on an undefined text; \<open>category!\<close> is
  \<open>category\<close> itself.
\<close>

definition categoryResponse :: "runtime \<Rightarrow> js_string \<Rightarrow> js_error + js_string option" where
  "categoryResponse rt description' =
     (let prompt = categorizePrompt description' in generateContent rt plainModel prompt)"

definition categorizeExpense_try :: "runtime \<Rightarrow> js_string \<Rightarrow> js_error + js_string option" where
  "categorizeExpense_try rt description' =
     (case categoryResponse rt description' of
        Inl e \<Rightarrow> Inl e
      | Inr text' \<Rightarrow>
          (let category' = map_option trim text' in
           if or_empty category' \<in> set validCategories
           then Inr category'
           else Inr (Some (js ''Other''))))"

text \<open>The \<open>catch\<close> block logs the error and returns \<open>'Other'\<close>.\<close>

definition categorizeExpense :: "runtime \<Rightarrow> js_string \<Rightarrow> js_error + js_string option" where
  "categorizeExpense rt description' =
     (case categorizeExpense_try rt description' of
        Inl error \<Rightarrow> Inr (Some (js ''Other''))
      | Inr category' \<Rightarrow> Inr category')"

section \<open>generateExpenseInsights\<close>

text \<open>
  The interface \<open>AIInsight\<close> as the objects are at run time: \<open>JSON.parse\<close> returns
  \<open>any\<close>, so a field holds whatever value the expression computing it gives;
  \<open>action\<close> may be \<open>undefined\<close>.
\<close>

record AIInsight =
  insight_id :: js_string
  type :: json
  title :: json
  message :: json
  action :: "json option"
  confidence :: json

text \<open>
  \<open>insight.k\<close> for the keys the callback reads (\<open>type\<close>, \<open>title\<close>, \<open>message\<close>,
  \<open>action\<close>, \<open>confidence\<close>). Reading a property of \<open>null\<close> throws a TypeError. No
  prototype of a boolean, number, string or array defines one of these keys, so they are
  \<open>undefined\<close> there. \<open>JSON.parse\<close> keeps the last of two equal keys, so the keys of
  a parsed object are distinct.
\<close>

fun get_property :: "json \<Rightarrow> js_string \<Rightarrow> js_error + json option" where
  "get_property JNull k = Inl TypeError"
| "get_property (JObject kvs) k = Inr (map_of kvs k)"
| "get_property v k = Inr None"

text \<open>\<open>v || d\<close>.\<close>

definition or_default :: "json option \<Rightarrow> json \<Rightarrow> json" where
  "or_default v d = (case v of None \<Rightarrow> d | Some x \<Rightarrow> if truthy (Some x) then x else d)"

text \<open>
  ToString of a number that is an integer below \<open>10^21\<close> in absolute value (an array
  index, a time value): its decimal digits.
\<close>

fun digits :: "nat \<Rightarrow> js_string" where
  "digits n =
     (if n < 10 then [of_nat (48 + n)]
      else digits (n div 10) @ [of_nat (48 + n mod 10)])"

declare digits.simps [simp del]

definition integer_to_string :: "int \<Rightarrow> js_string" where
  "integer_to_string i = (if i < 0 then js ''-'' @ digits (nat (- i)) else digits (nat i))"

text \<open>
  The callback of \<open>insights.map\<close>. Its call for the element at \<open>index\<close> is the only
  one to read the clock, once, so this is reading number \<open>index\<close>. The property reads
  happen in the order of the object literal; the first one that throws ends the call.
\<close>

definition formatInsight :: "runtime \<Rightarrow> json \<Rightarrow> nat \<Rightarrow> js_error + AIInsight" where
  "formatInsight rt insight index =
     (let now = Date_now rt index in
      (case get_property insight (js ''type'') of Inl e \<Rightarrow> Inl e | Inr type' \<Rightarrow>
      (case get_property insight (js ''title'') of Inl e \<Rightarrow> Inl e | Inr title' \<Rightarrow>
      (case get_property insight (js ''message'') of Inl e \<Rightarrow> Inl e | Inr message' \<Rightarrow>
      (case get_property insight (js ''action'') of Inl e \<Rightarrow> Inl e | Inr action' \<Rightarrow>
      (case get_property insight (js ''confidence'') of Inl e \<Rightarrow> Inl e | Inr confidence' \<Rightarrow>
        Inr \<lparr>insight_id = js ''ai-'' @ integer_to_string now @ js ''-'' @ digits index,
             type = or_default type' (JString (js ''info'')),
             title = or_default title' (JString (js ''AI Insight'')),
             message = or_default message' (JString (js ''Analysis complete'')),
             action = action',
             confidence = or_default confidence' (JNumber (Finite 0.8))\<rparr>))))))"

text \<open>
  \<open>Array.prototype.map\<close>: the callback runs on each element in order, with its
  index; an exception in a call ends the loop.
\<close>

fun map_from :: "(json \<Rightarrow> nat \<Rightarrow> js_error + 'b) \<Rightarrow> nat \<Rightarrow> json list \<Rightarrow> js_error + 'b list" where
  "map_from f i [] = Inr []"
| "map_from f i (x # xs) =
     (case f x i of
        Inl e \<Rightarrow> Inl e
      | Inr y \<Rightarrow> (case map_from f (Suc i) xs of Inl e \<Rightarrow> Inl e | Inr ys \<Rightarrow> Inr (y # ys)))"

text \<open>
  \<open>insights.map(f)\<close> on a parsed value: only an array has a callable \<open>map\<close>. On
  \<open>null\<close> the property read throws, on every other value the call of a non-function
  does (also on an object with a key \<open>map\<close>, whose value is no function).
\<close>

fun json_map :: "json \<Rightarrow> (json \<Rightarrow> nat \<Rightarrow> js_error + 'b) \<Rightarrow> js_error + 'b list" where
  "json_map (JArray xs) f = map_from f 0 xs"
| "json_map v f = Inl TypeError"

definition insightsPrompt :: "js_string \<Rightarrow> js_string" where
  \<open>insightsPrompt stringified = template_lines
     [js ''You are a financial advisor AI. Analyze the following expense data and provide 3-4 actionable financial insights. '',
      js ''    Return a JSON array of insights with this exact structure:'',
      js ''    [{'',
      js ''      "type": "warning|info|success|tip",'',
      js ''      "title": "Brief title",'',
      js ''      "message": "Detailed insight message with specific numbers when possible",'',
      js ''      "action": "Actionable suggestion",'',
      js ''      "confidence": 0.8'',
      js ''    }]'',
      js '''',
      js ''    Focus on:'',
      js ''    1. Spending patterns (day of week, categories)'',
      js ''    2. Budget alerts (high spending areas)'',
      js ''    3. Money-saving opportunities'',
      js ''    4. Positive reinforcement for good habits'',
      js '''',
      js ''    Expense Data:'',
      js ''    '' @ stringified,
      js ''    '']\<close>

definition summarize :: "ExpenseRecord list \<Rightarrow> ExpenseSummary list" where
  "summarize expenses =
     map (\<lambda>expense. \<lparr>amount = expense_amount expense,
                      category = expense_category expense,
                      description = expense_description expense,
                      date = expense_date expense\<rparr>) expenses"

definition insightsModel :: ModelParams where
  "insightsModel =
     \<lparr>model = modelName,
      generationConfig = Some \<lparr>responseMimeType = js ''application/json'', temperature = 0.7\<rparr>\<rparr>"

text \<open>
  The call of the model and \<open>result.response.text()\<close>; then the rest of the \<open>try\<close>
  block. \<open>!responseText\<close> holds of \<open>undefined\<close> and of \<open>''\<close>.
\<close>

definition insightsResponse :: "runtime \<Rightarrow> ExpenseRecord list \<Rightarrow> js_error + js_string option" where
  "insightsResponse rt expenses =
     (let expensesSummary = summarize expenses;
          prompt = insightsPrompt (JSON_stringify rt expensesSummary)
      in generateContent rt insightsModel prompt)"

definition generateExpenseInsights_try :: "runtime \<Rightarrow> ExpenseRecord list \<Rightarrow> js_error + AIInsight list" where
  "generateExpenseInsights_try rt expenses =
     (case insightsResponse rt expenses of
        Inl e \<Rightarrow> Inl e
      | Inr None \<Rightarrow> Inl (Error (js ''No response from AI''))
      | Inr (Some responseText) \<Rightarrow>
          if responseText = [] then Inl (Error (js ''No response from AI''))
          else (case JSON_parse rt responseText of
                  Inl e \<Rightarrow> Inl e
                | Inr insights \<Rightarrow> json_map insights (formatInsight rt)))"

definition fallbackInsights :: "AIInsight list" where
  "fallbackInsights =
     [\<lparr>insight_id = js ''fallback-1'',
       type = JString (js ''info''),
       title = JString (js ''AI Analysis Unavailable''),
       message = JString (js ''Unable to generate personalized insights at this time. Please try again later.''),
       action = Some (JString (js ''Refresh insights'')),
       confidence = JNumber (Finite 0.5)\<rparr>]"

text \<open>The \<open>catch\<close> block logs the error and returns the fallback list.\<close>

definition generateExpenseInsights :: "runtime \<Rightarrow> ExpenseRecord list \<Rightarrow> js_error + AIInsight list" where
  "generateExpenseInsights rt expenses =
     (case generateExpenseInsights_try rt expenses of
        Inl error \<Rightarrow> Inr fallbackInsights
      | Inr formattedInsights \<Rightarrow> Inr formattedInsights)"

section \<open>generateAIAnswer\<close>

definition answerPrompt :: "js_string \<Rightarrow> js_string \<Rightarrow> js_string" where
  \<open>answerPrompt question stringified = template_lines
     [js ''You are a helpful financial advisor AI. Based on the following expense data, provide a concise but thorough answer (2-3 sentences) to this question: "'' @ question @ js ''"'',
      js '''',
      js ''    Use concrete data from the expenses when possible and offer actionable advice. Return only the answer text.'',
      js '''',
      js ''    Expense Data:'',
      js ''    '' @ stringified]\<close>

definition apology :: js_string where
  "apology = js ''I'' @ [0x0027] @ js ''m unable to provide a detailed answer at the moment. Please try refreshing the insights or check your connection.''"

definition answerResponse :: "runtime \<Rightarrow> js_string \<Rightarrow> ExpenseRecord list \<Rightarrow> js_error + js_string option" where
  "answerResponse rt question context' =
     (let expensesSummary = summarize context';
          prompt = answerPrompt question (JSON_stringify rt expensesSummary)
      in generateContent rt plainModel prompt)"

definition generateAIAnswer_try :: "runtime \<Rightarrow> js_string \<Rightarrow> ExpenseRecord list \<Rightarrow> js_error + js_string" where
  "generateAIAnswer_try rt question context' =
     (case answerResponse rt question context' of
        Inl e \<Rightarrow> Inl e
      | Inr None \<Rightarrow> Inl (Error (js ''No response from AI''))
      | Inr (Some response) \<Rightarrow>
          if response = [] then Inl (Error (js ''No response from AI''))
          else Inr (trim response))"

definition generateAIAnswer :: "runtime \<Rightarrow> js_string \<Rightarrow> ExpenseRecord list \<Rightarrow> js_error + js_string" where
  "generateAIAnswer rt question context' =
     (case generateAIAnswer_try rt question context' of
        Inl error \<Rightarrow> Inr apology
      | Inr answer \<Rightarrow> Inr answer)"

section \<open>checkUser\<close>

text \<open>
  A name part of the session user: the identity provider declares it
  \<open>string | null\<close>, and a user object that lacks the property gives \<open>undefined\<close>.
\<close>

datatype name_part = Undefined | Null | Str js_string

text \<open>
  The session user of the identity provider, with the fields \<open>checkUser\<close> reads:
  \<open>id\<close>, \<open>emailAddresses\<close>, \<open>firstName\<close>, \<open>lastName\<close> and \<open>imageUrl\<close>.
\<close>

record EmailAddress =
  emailAddress :: js_string

record SessionUser =
  session_id :: js_string
  emailAddresses :: "EmailAddress list"
  firstName :: name_part
  lastName :: name_part
  session_imageUrl :: js_string

text \<open>The application user, as the \<open>data\<close> of \<open>create\<close> gives its fields.\<close>

record ApplicationUser =
  clerkUserId :: js_string
  email :: js_string
  name :: js_string
  imageUrl :: js_string

text \<open>
  The database client \<open>db.user\<close> over a database state \<open>'db\<close>. \<open>findUnique\<close> looks
  a user up by \<open>clerkUserId\<close>: it throws, or gives the record or \<open>null\<close>, and leaves
  the state as it is. \<open>create\<close> throws or gives the created record, with the state
  after it.
\<close>

record 'db db_client =
  findUnique :: "js_string \<Rightarrow> 'db \<Rightarrow> js_error + ApplicationUser option"
  create :: "ApplicationUser \<Rightarrow> 'db \<Rightarrow> (js_error + ApplicationUser) \<times> 'db"

text \<open>
  A name part inside a template literal (ToString): \<open>undefined\<close> is printed as
  \<open>undefined\<close>, \<open>null\<close> as \<open>null\<close>, a string as it is.
\<close>

definition template_string :: "name_part \<Rightarrow> js_string" where
  "template_string v =
     (case v of Undefined \<Rightarrow> js ''undefined'' | Null \<Rightarrow> js ''null'' | Str s \<Rightarrow> s)"

text \<open>
  \<open>checkUser\<close>, given what \<open>await currentUser()\<close> gives (it throws, or gives the
  session user or \<open>null\<close>). No call is inside a \<open>try\<close>. The arguments of \<open>create\<close>
  are computed before the call: \<open>user.emailAddresses[0]\<close> is \<open>undefined\<close> on an empty
  array, and reading \<open>emailAddress\<close> of it throws a TypeError. \<open>newUser user first\<close>
  is the object \<open>data\<close>, where \<open>first\<close> is \<open>user.emailAddresses[0]\<close>.
\<close>

definition newUser :: "SessionUser \<Rightarrow> EmailAddress \<Rightarrow> ApplicationUser" where
  "newUser user first =
     \<lparr>clerkUserId = session_id user,
      email = emailAddress first,
      name = template_string (firstName user) @ js '' '' @ template_string (lastName user),
      imageUrl = session_imageUrl user\<rparr>"

definition checkUser ::
  "'db db_client \<Rightarrow> js_error + SessionUser option \<Rightarrow> 'db \<Rightarrow> (js_error + ApplicationUser option) \<times> 'db" where
  "checkUser db currentUser s =
     (case currentUser of
        Inl e \<Rightarrow> (Inl e, s)
      | Inr None \<Rightarrow> (Inr None, s)
      | Inr (Some user) \<Rightarrow>
          (case findUnique db (session_id user) s of
             Inl e \<Rightarrow> (Inl e, s)
           | Inr (Some existingUser) \<Rightarrow> (Inr (Some existingUser), s)
           | Inr None \<Rightarrow>
               (case emailAddresses user of
                  [] \<Rightarrow> (Inl TypeError, s)
                | first # rest \<Rightarrow>
                    (case create db (newUser user first) s of
                       (Inl e, s') \<Rightarrow> (Inl e, s')
                     | (Inr created, s') \<Rightarrow> (Inr (Some created), s')))))"

text \<open>
  Modelled from the spec: the database behind \<open>./db\<close> (the client module and its schema
  are not among the sources). "ApplicationUser: externalId (unique key), email, name,
  imageUrl. Created once per distinct external identity"; the database "exposes
  findUnique(by externalId) and create(fields) on a user collection". The state is the
  list of user records; \<open>create\<close> refuses a second record with the same key.
\<close>

definition table_db :: "ApplicationUser list db_client" where
  "table_db =
     \<lparr>findUnique = (\<lambda>k rows. Inr (find (\<lambda>r. clerkUserId r = k) rows)),
      create = (\<lambda>d rows.
        if find (\<lambda>r. clerkUserId r = clerkUserId d) rows \<noteq> None
        then (Inl (Error (js ''Unique constraint failed'')), rows)
        else (Inr d, rows @ [d]))\<rparr>"

section \<open>Properties of an insight, and runtimes to run the functions on\<close>

text \<open>
  The interface \<open>AIInsight\<close> declares \<open>type\<close> as one of four strings and
  \<open>confidence\<close> as a number; the data model bounds it by 0 and 1.
\<close>

definition insightTypes :: "js_string list" where
  "insightTypes = [js ''warning'', js ''info'', js ''success'', js ''tip'']"

definition valid_type :: "json \<Rightarrow> bool" where
  "valid_type v = (case v of JString s \<Rightarrow> s \<in> set insightTypes | _ \<Rightarrow> False)"

definition valid_confidence :: "json \<Rightarrow> bool" where
  "valid_confidence v = (case v of JNumber (Finite r) \<Rightarrow> 0 \<le> r \<and> r \<le> 1 | _ \<Rightarrow> False)"

text \<open>The value of a field of an upstream element, \<open>undefined\<close> where it has none.\<close>

definition raw_field :: "json \<Rightarrow> js_string \<Rightarrow> json option" where
  "raw_field x k = (case get_property x k of Inl e \<Rightarrow> None | Inr v \<Rightarrow> v)"

text \<open>
  A runtime whose model answers every prompt with \<open>response\<close>, whose \<open>JSON.parse\<close>
  reads the one text \<open>text'\<close> as \<open>parsed\<close> and rejects every other text, and whose clock
  starts at 2024-01-01T00:00:00Z and advances by a millisecond at each reading.
\<close>

definition canned_runtime :: "js_error + js_string option \<Rightarrow> js_string \<Rightarrow> json \<Rightarrow> runtime" where
  "canned_runtime response text' parsed =
     \<lparr>generateContent = (\<lambda>params prompt. response),
      JSON_parse = (\<lambda>t. if t = text' then Inr parsed else Inl SyntaxError),
      JSON_stringify = (\<lambda>summary. js ''[]''),
      Date_now = (\<lambda>k. 1704067200000 + int k)\<rparr>"

definition lunch :: ExpenseRecord where
  "lunch =
     \<lparr>expense_id = js ''1'', expense_amount = Finite 50, expense_category = js ''Food'',
      expense_description = js ''Lunch'', expense_date = js ''2024-01-01''\<rparr>"
text \<open>
  An insight with every required field present: the id is a non-empty string and
  \<open>type\<close>, \<open>title\<close>, \<open>message\<close> and \<open>confidence\<close> hold a truthy value (so none of
  them is \<open>undefined\<close> or \<open>null\<close>).
\<close>

definition required_present :: "AIInsight \<Rightarrow> bool" where
  "required_present y =
     (insight_id y \<noteq> [] \<and> truthy (Some (type y)) \<and> truthy (Some (title y))
      \<and> truthy (Some (message y)) \<and> truthy (Some (confidence y)))"

text \<open>
  An upstream element that keeps to the interface: its \<open>type\<close> is absent, falsy or one
  of the four strings, its \<open>confidence\<close> is absent, falsy or a number from 0 to 1.
\<close>

definition conforming :: "json \<Rightarrow> bool" where
  "conforming x =
     ((case raw_field x (js ''type'') of
         None \<Rightarrow> True | Some v \<Rightarrow> \<not> truthy (Some v) \<or> valid_type v)
      \<and> (case raw_field x (js ''confidence'') of
         None \<Rightarrow> True | Some v \<Rightarrow> \<not> truthy (Some v) \<or> valid_confidence v))"

text \<open>
  The model answers \<open>[{"type":"banana","confidence":5}]\<close>: a JSON array of one object
  whose \<open>type\<close> is none of the four and whose \<open>confidence\<close> is above 1.
\<close>

definition banana_text :: js_string where
  \<open>banana_text = js ''[{"type":"banana","confidence":5}]''\<close>

definition banana_array :: "json list" where
  "banana_array =
     [JObject [(js ''type'', JString (js ''banana'')), (js ''confidence'', JNumber (Finite 5))]]"

definition banana_runtime :: runtime where
  "banana_runtime = canned_runtime (Inr (Some banana_text)) banana_text (JArray banana_array)"

text \<open>
  The model answers \<open>[{"type":"tip","confidence":0},7]\<close>: an object with a valid type
  and the confidence 0, and a number.
\<close>

definition tip_text :: js_string where
  \<open>tip_text = js ''[{"type":"tip","confidence":0},7]''\<close>

definition tip_array :: "json list" where
  "tip_array =
     [JObject [(js ''type'', JString (js ''tip'')), (js ''confidence'', JNumber (Finite 0))],
      JNumber (Finite 7)]"

definition tip_runtime :: runtime where
  "tip_runtime = canned_runtime (Inr (Some tip_text)) tip_text (JArray tip_array)"

text \<open>The model answers \<open>[null,{}]\<close>: an array whose first element is \<open>null\<close>.\<close>

definition null_text :: js_string where
  "null_text = js ''[null,{}]''"

definition null_array :: "json list" where
  "null_array = [JNull, JObject []]"

definition null_runtime :: runtime where
  "null_runtime = canned_runtime (Inr (Some null_text)) null_text (JArray null_array)"

text \<open>
  Sessions and databases to run \<open>checkUser\<close> on: a user with one email address and
  \<open>null\<close> as her last name, the same user with no email address, her record, a
  database that cannot be reached, and one that can be read and refuses every write.
\<close>

definition alice :: SessionUser where
  "alice =
     \<lparr>session_id = js ''user_1'',
      emailAddresses = [\<lparr>emailAddress = js ''alice@example.com''\<rparr>],
      firstName = Str (js ''Alice''),
      lastName = Null,
      session_imageUrl = js ''https://img.example.com/alice.png''\<rparr>"

definition alice_without_email :: SessionUser where
  "alice_without_email = alice\<lparr>emailAddresses := []\<rparr>"

definition alice_record :: ApplicationUser where
  "alice_record =
     \<lparr>clerkUserId = js ''user_1'',
      email = js ''alice@example.com'',
      name = js ''Alice A.'',
      imageUrl = js ''https://img.example.com/old.png''\<rparr>"

definition unreachable_db :: "ApplicationUser list db_client" where
  "unreachable_db =
     \<lparr>findUnique = (\<lambda>k rows. Inl (Error (js ''Cannot reach database server''))),
      create = (\<lambda>d rows. (Inl (Error (js ''Cannot reach database server'')), rows))\<rparr>"

definition readonly_db :: "ApplicationUser list db_client" where
  "readonly_db =
     \<lparr>findUnique = findUnique table_db,
      create = (\<lambda>d rows. (Inl (Error (js ''Database is read-only'')), rows))\<rparr>"

definition bob_record :: ApplicationUser where
  "bob_record =
     \<lparr>clerkUserId = js ''user_2'',
      email = js ''bob@example.com'',
      name = js ''Bob B.'',
      imageUrl = js ''https://img.example.com/bob.png''\<rparr>"

definition nameless :: SessionUser where
  "nameless = alice\<lparr>firstName := Null\<rparr>"

text \<open>A session user object without the properties \<open>firstName\<close> and \<open>lastName\<close>.\<close>

definition unnamed :: SessionUser where
  "unnamed = alice\<lparr>firstName := Undefined, lastName := Undefined\<rparr>"

text \<open>
  \<open>String.prototype.includes\<close>: the text \<open>p\<close> occurs in \<open>s\<close> at some position.
\<close>

fun includes_text :: "js_string \<Rightarrow> js_string \<Rightarrow> bool" where
  "includes_text [] p = (p = [])"
| "includes_text (c # s) p = (take (length p) (c # s) = p \<or> includes_text s p)"

section \<open>Auxiliary facts\<close>

lemma formatInsight_null: "formatInsight rt JNull i = Inl TypeError"
  by (simp add: formatInsight_def)

lemma get_property_Inl: "get_property x k = Inl e \<Longrightarrow> x = JNull \<and> e = TypeError"
  by (cases x) simp_all

lemma formatInsight_Inl: "formatInsight rt x i = Inl e \<Longrightarrow> x = JNull \<and> e = TypeError"
  by (auto simp: formatInsight_def Let_def split: sum.splits dest: get_property_Inl)

lemma map_from_length: "map_from f i xs = Inr ys \<Longrightarrow> length ys = length xs"
  by (induction xs arbitrary: i ys) (auto split: sum.splits)

lemma map_from_nth:
  "map_from f i xs = Inr ys \<Longrightarrow> j < length xs \<Longrightarrow> f (xs ! j) (i + j) = Inr (ys ! j)"
proof (induction xs arbitrary: i ys j)
  case Nil
  then show ?case by simp
next
  case (Cons x xs)
  from Cons.prems(1) obtain y zs where
    y: "f x i = Inr y" and zs: "map_from f (Suc i) xs = Inr zs" and ys: "ys = y # zs"
    by (auto split: sum.splits)
  show ?case
  proof (cases j)
    case 0
    with y ys show ?thesis by simp
  next
    case (Suc k)
    with Cons.prems(2) have "k < length xs" by simp
    from Cons.IH [OF zs this] Suc ys show ?thesis by simp
  qed
qed

lemma map_from_Inl:
  "map_from f i xs = Inl e \<Longrightarrow> \<exists>j < length xs. f (xs ! j) (i + j) = Inl e"
proof (induction xs arbitrary: i)
  case Nil
  then show ?case by simp
next
  case (Cons x xs)
  show ?case
  proof (cases "f x i")
    case (Inl e')
    with Cons.prems have "f ((x # xs) ! 0) (i + 0) = Inl e" by simp
    then show ?thesis by blast
  next
    case (Inr y)
    with Cons.prems have "map_from f (Suc i) xs = Inl e" by (simp split: sum.splits)
    from Cons.IH [OF this] obtain j where "j < length xs" "f (xs ! j) (Suc i + j) = Inl e" by blast
    then have "Suc j < length (x # xs) \<and> f ((x # xs) ! Suc j) (i + Suc j) = Inl e" by simp
    then show ?thesis by blast
  qed
qed

lemma map_from_format_total:
  "JNull \<notin> set xs \<Longrightarrow> \<exists>ys. map_from (formatInsight rt) i xs = Inr ys"
proof (cases "map_from (formatInsight rt) i xs")
  case (Inl e)
  assume nn: "JNull \<notin> set xs"
  from map_from_Inl [OF Inl] obtain j where "j < length xs" "formatInsight rt (xs ! j) (i + j) = Inl e" by blast
  then have "xs ! j = JNull" "xs ! j \<in> set xs" by (auto dest: formatInsight_Inl)
  with nn show ?thesis by simp
next
  case (Inr ys)
  then show ?thesis by blast
qed

lemma map_from_format_null:
  "JNull \<in> set xs \<Longrightarrow> map_from (formatInsight rt) i xs = Inl TypeError"
proof (induction xs arbitrary: i)
  case Nil
  then show ?case by simp
next
  case (Cons x xs)
  show ?case
  proof (cases "x = JNull")
    case True
    then show ?thesis by (simp add: formatInsight_null)
  next
    case False
    with Cons.prems have "JNull \<in> set xs" by simp
    from Cons.IH [OF this] have "map_from (formatInsight rt) (Suc i) xs = Inl TypeError" .
    then show ?thesis by (simp split: sum.splits) (auto dest: formatInsight_Inl)
  qed
qed

lemma json_map_not_array: "(\<forall>xs. v \<noteq> JArray xs) \<Longrightarrow> json_map v f = Inl TypeError"
  by (cases v) simp_all

lemma insights_on_array:
  assumes "insightsResponse rt es = Inr (Some t)" and "t \<noteq> []"
    and "JSON_parse rt t = Inr (JArray xs)"
  shows "generateExpenseInsights rt es =
           (case map_from (formatInsight rt) 0 xs of
              Inl e \<Rightarrow> Inr fallbackInsights | Inr ys \<Rightarrow> Inr ys)"
  using assms by (simp add: generateExpenseInsights_def generateExpenseInsights_try_def)

lemma insights_total: "\<exists>ys. generateExpenseInsights rt es = Inr ys"
  by (simp add: generateExpenseInsights_def split: sum.splits)

lemma insights_fallback_or_array:
  "generateExpenseInsights rt es = Inr fallbackInsights
   \<or> (\<exists>t xs ys. insightsResponse rt es = Inr (Some t) \<and> t \<noteq> [] \<and> JSON_parse rt t = Inr (JArray xs)
         \<and> map_from (formatInsight rt) 0 xs = Inr ys \<and> generateExpenseInsights rt es = Inr ys)"
proof (cases "generateExpenseInsights_try rt es")
  case (Inl e)
  then show ?thesis by (simp add: generateExpenseInsights_def)
next
  case (Inr ys)
  then obtain t v where t: "insightsResponse rt es = Inr (Some t)" "t \<noteq> []"
    and v: "JSON_parse rt t = Inr v" "json_map v (formatInsight rt) = Inr ys"
    by (auto simp: generateExpenseInsights_try_def split: sum.splits option.splits if_splits)
  from v(2) obtain xs where xs: "v = JArray xs" by (cases v) simp_all
  with v have "map_from (formatInsight rt) 0 xs = Inr ys" by simp
  moreover from Inr have "generateExpenseInsights rt es = Inr ys"
    by (simp add: generateExpenseInsights_def)
  ultimately show ?thesis using t v(1) xs by blast
qed

lemma fallback_nonempty: "fallbackInsights \<noteq> []"
  by (simp add: fallbackInsights_def)

lemma digits_small: "n < 10 \<Longrightarrow> digits n = [of_nat (48 + n)]"
  by (simp add: digits.simps)

lemma digits_big: "10 \<le> n \<Longrightarrow> digits n = digits (n div 10) @ [of_nat (48 + n mod 10)]"
  by (subst digits.simps) simp

lemma formatInsight_Inr:
  "formatInsight rt x i = Inr y \<Longrightarrow>
     y = \<lparr>insight_id = js ''ai-'' @ integer_to_string (Date_now rt i) @ js ''-'' @ digits i,
          type = or_default (raw_field x (js ''type'')) (JString (js ''info'')),
          title = or_default (raw_field x (js ''title'')) (JString (js ''AI Insight'')),
          message = or_default (raw_field x (js ''message'')) (JString (js ''Analysis complete'')),
          action = raw_field x (js ''action''),
          confidence = or_default (raw_field x (js ''confidence'')) (JNumber (Finite 0.8))\<rparr>"
  by (auto simp: formatInsight_def raw_field_def Let_def split: sum.splits)

lemma or_default_if: "or_default v d = (if truthy v then the v else d)"
  by (cases v) (simp_all add: or_default_def)

lemma or_default_truthy: "truthy (Some d) \<Longrightarrow> truthy (Some (or_default v d))"
  by (cases v) (simp_all add: or_default_def)

lemma formatInsight_present: "formatInsight rt x i = Inr y \<Longrightarrow> required_present y"
  by (drule formatInsight_Inr) (simp add: required_present_def or_default_truthy js_def)

lemma fallback_present: "y \<in> set fallbackInsights \<Longrightarrow> required_present y"
  by (auto simp: fallbackInsights_def required_present_def js_def)

lemma fallback_valid:
  "y \<in> set fallbackInsights \<Longrightarrow> valid_type (type y) \<and> valid_confidence (confidence y)"
  by (auto simp: fallbackInsights_def valid_type_def valid_confidence_def insightTypes_def)

lemma formatInsight_valid:
  assumes "formatInsight rt x i = Inr y" and "conforming x"
  shows "valid_type (type y) \<and> valid_confidence (confidence y)"
proof -
  note y = formatInsight_Inr [OF assms(1)]
  have "valid_type (or_default (raw_field x (js ''type'')) (JString (js ''info'')))"
    using assms(2)
    by (auto simp: conforming_def or_default_def valid_type_def insightTypes_def split: option.splits)
  moreover have "valid_confidence (or_default (raw_field x (js ''confidence'')) (JNumber (Finite 0.8)))"
    using assms(2)
    by (auto simp: conforming_def or_default_def valid_confidence_def split: option.splits)
  ultimately show ?thesis by (simp add: y)
qed

lemma map_from_set:
  "map_from f i xs = Inr ys \<Longrightarrow> y \<in> set ys \<Longrightarrow> \<exists>j < length xs. f (xs ! j) (i + j) = Inr y"
proof -
  assume m: "map_from f i xs = Inr ys" and "y \<in> set ys"
  then obtain j where j: "j < length ys" "ys ! j = y" by (auto simp: in_set_conv_nth)
  with map_from_length [OF m] have "j < length xs" by simp
  from map_from_nth [OF m this] j show ?thesis using \<open>j < length xs\<close> by auto
qed

lemma empty_not_category: "[] \<notin> set validCategories"
  by (simp add: validCategories_def js_def)

lemma other_member: "js ''Other'' \<in> set validCategories"
  by (simp add: validCategories_def)

lemma categorizeExpense_cases:
  "categorizeExpense rt d =
     (case categoryResponse rt d of
        Inl e \<Rightarrow> Inr (Some (js ''Other''))
      | Inr None \<Rightarrow> Inr (Some (js ''Other''))
      | Inr (Some raw) \<Rightarrow>
          if trim raw \<in> set validCategories then Inr (Some (trim raw))
          else Inr (Some (js ''Other'')))"
  using empty_not_category
  by (auto simp: categorizeExpense_def categorizeExpense_try_def or_empty_def Let_def
      split: sum.splits option.splits)

lemma dropWhile_Nil_iff: "(dropWhile P xs = []) = (\<forall>x \<in> set xs. P x)"
  by (induction xs) auto

lemma trim_empty_iff: "(trim s = []) = (\<forall>c \<in> set s. isWhiteSpace c)"
proof
  assume "trim s = []"
  then have all: "\<forall>c \<in> set (dropWhile isWhiteSpace s). isWhiteSpace c"
    unfolding trim_def by (simp only: rev_is_Nil_conv dropWhile_Nil_iff set_rev)
  have "dropWhile isWhiteSpace s = []"
  proof (rule ccontr)
    assume ne: "dropWhile isWhiteSpace s \<noteq> []"
    then have "\<not> isWhiteSpace (hd (dropWhile isWhiteSpace s))" by (rule hd_dropWhile)
    moreover from ne have "hd (dropWhile isWhiteSpace s) \<in> set (dropWhile isWhiteSpace s)"
      by (rule hd_in_set)
    ultimately show False using all by blast
  qed
  then show "\<forall>c \<in> set s. isWhiteSpace c" by (simp only: dropWhile_Nil_iff)
next
  assume "\<forall>c \<in> set s. isWhiteSpace c"
  then have "dropWhile isWhiteSpace s = []" by (simp only: dropWhile_Nil_iff)
  then show "trim s = []" by (simp only: trim_def dropWhile.simps rev.simps)
qed

lemma trim_decompose:
  "\<exists>pre suf. s = pre @ trim s @ suf
      \<and> (\<forall>c \<in> set pre. isWhiteSpace c) \<and> (\<forall>c \<in> set suf. isWhiteSpace c)
      \<and> (trim s \<noteq> [] \<longrightarrow> \<not> isWhiteSpace (hd (trim s)) \<and> \<not> isWhiteSpace (last (trim s)))"
proof -
  let ?m = "dropWhile isWhiteSpace s"
  let ?pre = "takeWhile isWhiteSpace s"
  let ?suf = "rev (takeWhile isWhiteSpace (rev ?m))"
  have m: "?m = trim s @ ?suf"
  proof -
    have "trim s @ ?suf = rev (takeWhile isWhiteSpace (rev ?m) @ dropWhile isWhiteSpace (rev ?m))"
      unfolding trim_def by (simp only: rev_append)
    also have "\<dots> = rev (rev ?m)" by (simp only: takeWhile_dropWhile_id)
    finally show ?thesis by simp
  qed
  have "s = ?pre @ ?m" by simp
  with m have s: "s = ?pre @ trim s @ ?suf" by simp
  have p: "\<forall>c \<in> set ?pre. isWhiteSpace c" by (auto dest: set_takeWhileD)
  have q: "\<forall>c \<in> set ?suf. isWhiteSpace c" by (auto dest: set_takeWhileD)
  have e: "\<not> isWhiteSpace (hd (trim s)) \<and> \<not> isWhiteSpace (last (trim s))" if ne: "trim s \<noteq> []"
  proof -
    from ne have d: "dropWhile isWhiteSpace (rev ?m) \<noteq> []" by (simp add: trim_def)
    then have "\<not> isWhiteSpace (hd (dropWhile isWhiteSpace (rev ?m)))" by (rule hd_dropWhile)
    with d have l: "\<not> isWhiteSpace (last (trim s))" by (simp add: trim_def last_rev)
    have mne: "?m \<noteq> []"
    proof
      assume "?m = []"
      then have "trim s = []" by (simp only: trim_def dropWhile.simps rev.simps)
      with ne show False by simp
    qed
    then have "\<not> isWhiteSpace (hd ?m)" by (rule hd_dropWhile)
    moreover from m ne have "hd ?m = hd (trim s)" by (metis hd_append2)
    ultimately show ?thesis using l by simp
  qed
  from s p q e show ?thesis by blast
qed

lemma checkUser_created:
  "findUnique db (session_id user) s = Inr None \<Longrightarrow> emailAddresses user = first # rest \<Longrightarrow>
     checkUser db (Inr (Some user)) s =
       (case create db (newUser user first) s of
          (Inl e, s') \<Rightarrow> (Inl e, s')
        | (Inr created, s') \<Rightarrow> (Inr (Some created), s'))"
  by (simp add: checkUser_def)

lemma table_db_simps:
  "findUnique table_db k rows = Inr (find (\<lambda>r. clerkUserId r = k) rows)"
  "find (\<lambda>r. clerkUserId r = clerkUserId d) rows = None \<Longrightarrow>
     create table_db d rows = (Inr d, rows @ [d])"
  by (simp_all add: table_db_def)

lemma checkUser_on_table:
  assumes "find (\<lambda>r. clerkUserId r = session_id user) rows = None"
    and "emailAddresses user = first # rest"
  shows "checkUser table_db (Inr (Some user)) rows =
           (Inr (Some (newUser user first)), rows @ [newUser user first])"
proof -
  have f: "findUnique table_db (session_id user) rows = Inr None"
    using assms(1) by (simp add: table_db_simps)
  have k: "clerkUserId (newUser user first) = session_id user" by (simp add: newUser_def)
  have "create table_db (newUser user first) rows = (Inr (newUser user first), rows @ [newUser user first])"
    using assms(1) by (simp add: table_db_simps k)
  then show ?thesis by (simp add: checkUser_created [OF f assms(2)])
qed

lemma includes_text_here: "includes_text (p @ suf) p"
proof (cases "p @ suf")
  case Nil
  then show ?thesis by simp
next
  case (Cons c t)
  have "take (length p) (p @ suf) = p" by simp
  with Cons have "take (length p) (c # t) = p" by simp
  with Cons show ?thesis by simp
qed

lemma includes_text_infix: "includes_text (pre @ p @ suf) p"
  by (induction pre) (simp_all add: includes_text_here)


section \<open>The claims of the specification\<close>

text \<open>
  C1, as the code has it. When the response parses as a JSON array, every insight
  returned has its required fields present. Where no element of the array is
  \<open>null\<close>, the type of the \<open>i\<close>-th insight is the type of the \<open>i\<close>-th element when
  that value is truthy and \<open>info\<close> when it is absent or falsy, and its confidence is
  the confidence of the element when truthy and 0.8 when absent or falsy (an explicit
  0 included): a value is defaulted, it is not validated. So every type is one of the
  four and every confidence is between 0 and 1 when the upstream elements keep to the
  interface.
\<close>

theorem generateExpenseInsights_defaults:
  assumes "insightsResponse rt expenses = Inr (Some t)" and "t \<noteq> []"
    and "JSON_parse rt t = Inr (JArray xs)"
  shows "\<exists>ys. generateExpenseInsights rt expenses = Inr ys
     \<and> (\<forall>y \<in> set ys. required_present y)
     \<and> (JNull \<notin> set xs \<longrightarrow>
          length ys = length xs
          \<and> (\<forall>i < length xs.
               type (ys ! i) =
                 (if truthy (raw_field (xs ! i) (js ''type''))
                  then the (raw_field (xs ! i) (js ''type'')) else JString (js ''info''))
               \<and> confidence (ys ! i) =
                 (if truthy (raw_field (xs ! i) (js ''confidence''))
                  then the (raw_field (xs ! i) (js ''confidence'')) else JNumber (Finite 0.8))))
     \<and> ((\<forall>x \<in> set xs. conforming x) \<longrightarrow>
          (\<forall>y \<in> set ys. valid_type (type y) \<and> valid_confidence (confidence y)))"
proof (cases "map_from (formatInsight rt) 0 xs")
  case (Inl e)
  with insights_on_array [OF assms]
  have g: "generateExpenseInsights rt expenses = Inr fallbackInsights" by simp
  have "JNull \<in> set xs"
  proof (rule ccontr)
    assume "JNull \<notin> set xs"
    from map_from_format_total [OF this, of rt 0] Inl show False by simp
  qed
  with g fallback_present fallback_valid show ?thesis by auto
next
  case (Inr ys)
  with insights_on_array [OF assms]
  have g: "generateExpenseInsights rt expenses = Inr ys" by simp
  have len: "length ys = length xs" by (rule map_from_length [OF Inr])
  have nth: "formatInsight rt (xs ! i) i = Inr (ys ! i)" if "i < length xs" for i
    using map_from_nth [OF Inr that] by simp
  have present: "\<forall>y \<in> set ys. required_present y"
  proof
    fix y assume "y \<in> set ys"
    from map_from_set [OF Inr this] obtain j where "formatInsight rt (xs ! j) (0 + j) = Inr y" by blast
    then show "required_present y" by (rule formatInsight_present)
  qed
  have fields: "\<forall>i < length xs.
       type (ys ! i) =
         (if truthy (raw_field (xs ! i) (js ''type''))
          then the (raw_field (xs ! i) (js ''type'')) else JString (js ''info''))
       \<and> confidence (ys ! i) =
         (if truthy (raw_field (xs ! i) (js ''confidence''))
          then the (raw_field (xs ! i) (js ''confidence'')) else JNumber (Finite 0.8))"
  proof (intro allI impI)
    fix i assume "i < length xs"
    from formatInsight_Inr [OF nth [OF this]]
    show "type (ys ! i) =
         (if truthy (raw_field (xs ! i) (js ''type''))
          then the (raw_field (xs ! i) (js ''type'')) else JString (js ''info''))
       \<and> confidence (ys ! i) =
         (if truthy (raw_field (xs ! i) (js ''confidence''))
          then the (raw_field (xs ! i) (js ''confidence'')) else JNumber (Finite 0.8))"
      by (simp add: or_default_if)
  qed
  have valid: "\<forall>y \<in> set ys. valid_type (type y) \<and> valid_confidence (confidence y)"
    if conf: "\<forall>x \<in> set xs. conforming x"
  proof
    fix y assume "y \<in> set ys"
    from map_from_set [OF Inr this] obtain j where j: "j < length xs"
      "formatInsight rt (xs ! j) (0 + j) = Inr y" by blast
    from j(1) conf have "conforming (xs ! j)" by simp
    with j(2) show "valid_type (type y) \<and> valid_confidence (confidence y)"
      by (rule formatInsight_valid)
  qed
  from g len present fields valid show ?thesis by blast
qed

text \<open>
  The response \<open>[{"type":"tip","confidence":0},7]\<close>: the first insight keeps the type
  \<open>tip\<close> and gets the confidence 0.8 in place of 0, the second gets both defaults.
\<close>

theorem generateExpenseInsights_defaults_witness:
  "insightsResponse tip_runtime [lunch] = Inr (Some tip_text) \<and> tip_text \<noteq> []
   \<and> JSON_parse tip_runtime tip_text = Inr (JArray tip_array)
   \<and> JNull \<notin> set tip_array \<and> conforming (tip_array ! 0) \<and> conforming (tip_array ! 1)
   \<and> (\<exists>ys. generateExpenseInsights tip_runtime [lunch] = Inr ys \<and> length ys = 2
        \<and> required_present (ys ! 0) \<and> required_present (ys ! 1)
        \<and> type (ys ! 0) = JString (js ''tip'') \<and> confidence (ys ! 0) = JNumber (Finite 0.8)
        \<and> type (ys ! 1) = JString (js ''info'') \<and> confidence (ys ! 1) = JNumber (Finite 0.8)
        \<and> valid_type (type (ys ! 0)) \<and> valid_confidence (confidence (ys ! 0))
        \<and> valid_type (type (ys ! 1)) \<and> valid_confidence (confidence (ys ! 1)))"
proof -
  have h1: "insightsResponse tip_runtime [lunch] = Inr (Some tip_text)"
    by (simp add: insightsResponse_def tip_runtime_def canned_runtime_def)
  have h2: "tip_text \<noteq> []"
    by (simp add: tip_text_def js_def)
  have h3: "JSON_parse tip_runtime tip_text = Inr (JArray tip_array)"
    by (simp add: tip_runtime_def canned_runtime_def)
  have nn: "JNull \<notin> set tip_array"
    by (simp add: tip_array_def)
  have c0: "conforming (tip_array ! 0)"
    by (simp add: tip_array_def conforming_def raw_field_def js_def valid_type_def insightTypes_def)
  have c1: "conforming (tip_array ! 1)"
    by (simp add: tip_array_def conforming_def raw_field_def)
  have call: "\<forall>x \<in> set tip_array. conforming x"
    using c0 c1 by (simp add: tip_array_def)
  have r0: "raw_field (tip_array ! 0) (js ''type'') = Some (JString (js ''tip''))"
    "raw_field (tip_array ! 0) (js ''confidence'') = Some (JNumber (Finite 0))"
    by (simp_all add: tip_array_def raw_field_def js_def)
  have r1: "raw_field (tip_array ! 1) (js ''type'') = None"
    "raw_field (tip_array ! 1) (js ''confidence'') = None"
    by (simp_all add: tip_array_def raw_field_def)
  have l: "length tip_array = 2" by (simp add: tip_array_def)
  from generateExpenseInsights_defaults [OF h1 h2 h3] nn call l
  obtain ys where ys: "generateExpenseInsights tip_runtime [lunch] = Inr ys"
    and p: "\<forall>y \<in> set ys. required_present y"
    and len: "length ys = 2"
    and f: "\<forall>i < 2.
               type (ys ! i) =
                 (if truthy (raw_field (tip_array ! i) (js ''type''))
                  then the (raw_field (tip_array ! i) (js ''type'')) else JString (js ''info''))
               \<and> confidence (ys ! i) =
                 (if truthy (raw_field (tip_array ! i) (js ''confidence''))
                  then the (raw_field (tip_array ! i) (js ''confidence'')) else JNumber (Finite 0.8))"
    and v: "\<forall>y \<in> set ys. valid_type (type y) \<and> valid_confidence (confidence y)"
    by auto
  from len have m: "ys ! 0 \<in> set ys" "ys ! 1 \<in> set ys" by simp_all
  have ne: "js ''tip'' \<noteq> []" by (simp add: js_def)
  have lt: "(0::nat) < 2" "(1::nat) < 2" by simp_all
  from f lt(1) have
    "type (ys ! 0) =
       (if truthy (raw_field (tip_array ! 0) (js ''type''))
        then the (raw_field (tip_array ! 0) (js ''type'')) else JString (js ''info''))
     \<and> confidence (ys ! 0) =
       (if truthy (raw_field (tip_array ! 0) (js ''confidence''))
        then the (raw_field (tip_array ! 0) (js ''confidence'')) else JNumber (Finite 0.8))"
    by blast
  then have f0: "type (ys ! 0) = JString (js ''tip'')" "confidence (ys ! 0) = JNumber (Finite 0.8)"
    by (simp_all add: r0 ne)
  from f lt(2) have
    "type (ys ! 1) =
       (if truthy (raw_field (tip_array ! 1) (js ''type''))
        then the (raw_field (tip_array ! 1) (js ''type'')) else JString (js ''info''))
     \<and> confidence (ys ! 1) =
       (if truthy (raw_field (tip_array ! 1) (js ''confidence''))
        then the (raw_field (tip_array ! 1) (js ''confidence'')) else JNumber (Finite 0.8))"
    by blast
  then have f1: "type (ys ! 1) = JString (js ''info'')" "confidence (ys ! 1) = JNumber (Finite 0.8)"
    by (simp_all add: r1 [unfolded One_nat_def])
  from ys len p v m f0 f1 have "\<exists>ys. generateExpenseInsights tip_runtime [lunch] = Inr ys \<and> length ys = 2
        \<and> required_present (ys ! 0) \<and> required_present (ys ! 1)
        \<and> type (ys ! 0) = JString (js ''tip'') \<and> confidence (ys ! 0) = JNumber (Finite 0.8)
        \<and> type (ys ! 1) = JString (js ''info'') \<and> confidence (ys ! 1) = JNumber (Finite 0.8)
        \<and> valid_type (type (ys ! 0)) \<and> valid_confidence (confidence (ys ! 0))
        \<and> valid_type (type (ys ! 1)) \<and> valid_confidence (confidence (ys ! 1))"
    by blast
  with h1 h2 h3 nn c0 c1 show ?thesis by blast
qed

text \<open>
  C1 as stated fails: on the response \<open>[{"type":"banana","confidence":5}]\<close> the
  insight returned has the type \<open>banana\<close> and the confidence 5.
\<close>

theorem generateExpenseInsights_unvalidated_counterexample:
  "insightsResponse banana_runtime [lunch] = Inr (Some banana_text)
   \<and> JSON_parse banana_runtime banana_text = Inr (JArray banana_array)
   \<and> generateExpenseInsights banana_runtime [lunch] =
       Inr [\<lparr>insight_id = js ''ai-1704067200000-0'',
             type = JString (js ''banana''),
             title = JString (js ''AI Insight''),
             message = JString (js ''Analysis complete''),
             action = None,
             confidence = JNumber (Finite 5)\<rparr>]
   \<and> \<not> valid_type (JString (js ''banana''))
   \<and> \<not> valid_confidence (JNumber (Finite 5))"
proof -
  have h1: "insightsResponse banana_runtime [lunch] = Inr (Some banana_text)"
    by (simp add: insightsResponse_def banana_runtime_def canned_runtime_def)
  have h2: "banana_text \<noteq> []"
    by (simp add: banana_text_def js_def)
  have h3: "JSON_parse banana_runtime banana_text = Inr (JArray banana_array)"
    by (simp add: banana_runtime_def canned_runtime_def)
  have t: "integer_to_string (Date_now banana_runtime 0) = js ''1704067200000''"
    by (simp add: banana_runtime_def canned_runtime_def integer_to_string_def digits_small
        digits_big js_def)
  have f: "formatInsight banana_runtime (banana_array ! 0) 0 =
       Inr \<lparr>insight_id = js ''ai-1704067200000-0'',
             type = JString (js ''banana''),
             title = JString (js ''AI Insight''),
             message = JString (js ''Analysis complete''),
             action = None,
             confidence = JNumber (Finite 5)\<rparr>"
    by (simp add: formatInsight_def Let_def t banana_array_def or_default_def digits_small)
      (simp add: js_def)
  have g: "generateExpenseInsights banana_runtime [lunch] =
       Inr [\<lparr>insight_id = js ''ai-1704067200000-0'',
             type = JString (js ''banana''),
             title = JString (js ''AI Insight''),
             message = JString (js ''Analysis complete''),
             action = None,
             confidence = JNumber (Finite 5)\<rparr>]"
    using f by (simp add: insights_on_array [OF h1 h2 h3]) (simp add: banana_array_def)
  have nt: "\<not> valid_type (JString (js ''banana''))"
    by (simp add: valid_type_def insightTypes_def js_def)
  have nc: "\<not> valid_confidence (JNumber (Finite 5))"
    by (simp add: valid_confidence_def)
  from h1 h3 g nt nc show ?thesis by blast
qed

text \<open>
  C2. Whenever the model call throws, the response text is undefined or empty, or the
  response text is rejected by \<open>JSON.parse\<close>, \<open>generateExpenseInsights\<close> returns
  (it does not throw) exactly the one-element fallback list: id \<open>fallback-1\<close>, type
  \<open>info\<close>, title \<open>AI Analysis Unavailable\<close>, the fixed message, action
  \<open>Refresh insights\<close>, confidence 0.5.
\<close>

theorem generateExpenseInsights_fallback:
  "(\<forall>e. insightsResponse rt expenses = Inl e \<longrightarrow>
        generateExpenseInsights rt expenses = Inr fallbackInsights)
   \<and> (insightsResponse rt expenses = Inr None \<longrightarrow>
        generateExpenseInsights rt expenses = Inr fallbackInsights)
   \<and> (insightsResponse rt expenses = Inr (Some []) \<longrightarrow>
        generateExpenseInsights rt expenses = Inr fallbackInsights)
   \<and> (\<forall>t e. insightsResponse rt expenses = Inr (Some t) \<longrightarrow> JSON_parse rt t = Inl e \<longrightarrow>
        generateExpenseInsights rt expenses = Inr fallbackInsights)
   \<and> fallbackInsights =
        [\<lparr>insight_id = js ''fallback-1'',
          type = JString (js ''info''),
          title = JString (js ''AI Analysis Unavailable''),
          message = JString (js ''Unable to generate personalized insights at this time. Please try again later.''),
          action = Some (JString (js ''Refresh insights'')),
          confidence = JNumber (Finite 0.5)\<rparr>]"
proof -
  have "fallbackInsights =
        [\<lparr>insight_id = js ''fallback-1'',
          type = JString (js ''info''),
          title = JString (js ''AI Analysis Unavailable''),
          message = JString (js ''Unable to generate personalized insights at this time. Please try again later.''),
          action = Some (JString (js ''Refresh insights'')),
          confidence = JNumber (Finite 0.5)\<rparr>]"
    by (simp add: fallbackInsights_def)
  moreover have "\<forall>t e. insightsResponse rt expenses = Inr (Some t) \<longrightarrow> JSON_parse rt t = Inl e \<longrightarrow>
        generateExpenseInsights rt expenses = Inr fallbackInsights"
    by (auto simp: generateExpenseInsights_def generateExpenseInsights_try_def)
  moreover have "\<forall>e. insightsResponse rt expenses = Inl e \<longrightarrow>
        generateExpenseInsights rt expenses = Inr fallbackInsights"
    by (simp add: generateExpenseInsights_def generateExpenseInsights_try_def)
  moreover have "insightsResponse rt expenses = Inr None \<longrightarrow>
        generateExpenseInsights rt expenses = Inr fallbackInsights"
    by (simp add: generateExpenseInsights_def generateExpenseInsights_try_def)
  moreover have "insightsResponse rt expenses = Inr (Some []) \<longrightarrow>
        generateExpenseInsights rt expenses = Inr fallbackInsights"
    by (simp add: generateExpenseInsights_def generateExpenseInsights_try_def)
  ultimately show ?thesis by blast
qed

text \<open>
  The scenario of the specification (one lunch expense) with a failing model call, and
  the same expense with an undefined, an empty and an unparsable response text.
\<close>

theorem generateExpenseInsights_fallback_witness:
  "generateExpenseInsights (canned_runtime (Inl (Error (js ''fetch failed''))) [] JNull) [lunch] =
      Inr [\<lparr>insight_id = js ''fallback-1'',
          type = JString (js ''info''),
          title = JString (js ''AI Analysis Unavailable''),
          message = JString (js ''Unable to generate personalized insights at this time. Please try again later.''),
          action = Some (JString (js ''Refresh insights'')),
          confidence = JNumber (Finite 0.5)\<rparr>]
   \<and> generateExpenseInsights (canned_runtime (Inr None) [] JNull) [lunch] = Inr fallbackInsights
   \<and> generateExpenseInsights (canned_runtime (Inr (Some [])) [] JNull) [lunch] = Inr fallbackInsights
   \<and> generateExpenseInsights (canned_runtime (Inr (Some (js ''Sorry, I cannot help.''))) (js ''[]'') (JArray []))
         [lunch] = Inr fallbackInsights"
  using generateExpenseInsights_fallback [of "canned_runtime (Inl (Error (js ''fetch failed''))) [] JNull" "[lunch]"]
    generateExpenseInsights_fallback [of "canned_runtime (Inr None) [] JNull" "[lunch]"]
    generateExpenseInsights_fallback [of "canned_runtime (Inr (Some [])) [] JNull" "[lunch]"]
    generateExpenseInsights_fallback [of "canned_runtime (Inr (Some (js ''Sorry, I cannot help.''))) (js ''[]'') (JArray [])" "[lunch]"]
  by (simp add: insightsResponse_def canned_runtime_def js_def)

text \<open>
  C3. \<open>categorizeExpense\<close> always returns a member of the seven categories. On the
  raw model output \<open>raw\<close> it returns the trimmed output exactly when that is a member
  (code units are compared, so \<open>food\<close> is not \<open>Food\<close>), and \<open>Other\<close> when it is not;
  it returns \<open>Other\<close> when the text is undefined and when the call fails.
\<close>

theorem categorizeExpense_allow_list:
  "(\<exists>c. categorizeExpense rt d = Inr (Some c) \<and> c \<in> set validCategories)
   \<and> (\<forall>raw. categoryResponse rt d = Inr (Some raw) \<longrightarrow>
          (categorizeExpense rt d = Inr (Some (trim raw))) = (trim raw \<in> set validCategories)
          \<and> (trim raw \<notin> set validCategories \<longrightarrow>
                categorizeExpense rt d = Inr (Some (js ''Other''))))
   \<and> (categoryResponse rt d = Inr None \<longrightarrow> categorizeExpense rt d = Inr (Some (js ''Other'')))
   \<and> (\<forall>e. categoryResponse rt d = Inl e \<longrightarrow> categorizeExpense rt d = Inr (Some (js ''Other'')))
   \<and> validCategories =
        [js ''Food'', js ''Transportation'', js ''Entertainment'', js ''Shopping'',
         js ''Bills'', js ''Healthcare'', js ''Other'']"
proof -
  have "\<exists>c. categorizeExpense rt d = Inr (Some c) \<and> c \<in> set validCategories"
    using other_member by (auto simp: categorizeExpense_cases split: sum.splits option.splits)
  moreover have "\<forall>raw. categoryResponse rt d = Inr (Some raw) \<longrightarrow>
          (categorizeExpense rt d = Inr (Some (trim raw))) = (trim raw \<in> set validCategories)
          \<and> (trim raw \<notin> set validCategories \<longrightarrow>
                categorizeExpense rt d = Inr (Some (js ''Other'')))"
    using other_member by (auto simp: categorizeExpense_cases)
  moreover have "categoryResponse rt d = Inr None \<longrightarrow> categorizeExpense rt d = Inr (Some (js ''Other''))"
    by (simp add: categorizeExpense_cases)
  moreover have "\<forall>e. categoryResponse rt d = Inl e \<longrightarrow> categorizeExpense rt d = Inr (Some (js ''Other''))"
    by (simp add: categorizeExpense_cases)
  ultimately show ?thesis by (simp add: validCategories_def)
qed

text \<open>
  The scenario of the specification: on \<open>Starbucks coffee\<close> the model answers
  \<open>food\<close>, and the category is \<open>Other\<close>. An answer \<open>Food\<close> between a space and a line
  feed is returned trimmed, and a failing call gives \<open>Other\<close>.
\<close>

theorem categorizeExpense_allow_list_witness:
  "categorizeExpense (canned_runtime (Inr (Some (js ''food''))) [] JNull) (js ''Starbucks coffee'')
      = Inr (Some (js ''Other''))
   \<and> categorizeExpense (canned_runtime (Inr (Some (js '' Food'' @ newline))) [] JNull)
        (js ''Starbucks coffee'') = Inr (Some (js ''Food''))
   \<and> categorizeExpense (canned_runtime (Inl (Error (js ''fetch failed''))) [] JNull)
        (js ''Starbucks coffee'') = Inr (Some (js ''Other''))"
proof -
  let ?d = "js ''Starbucks coffee''"
  let ?r1 = "canned_runtime (Inr (Some (js ''food''))) [] JNull"
  let ?r2 = "canned_runtime (Inr (Some (js '' Food'' @ newline))) [] JNull"
  let ?r3 = "canned_runtime (Inl (Error (js ''fetch failed''))) [] JNull"
  have a1: "categoryResponse ?r1 ?d = Inr (Some (js ''food''))"
    by (simp add: categoryResponse_def canned_runtime_def)
  have t1: "trim (js ''food'') \<notin> set validCategories"
    by (simp add: trim_def isWhiteSpace_def validCategories_def js_def)
  have a2: "categoryResponse ?r2 ?d = Inr (Some (js '' Food'' @ newline))"
    by (simp add: categoryResponse_def canned_runtime_def)
  have t2: "trim (js '' Food'' @ newline) = js ''Food''"
    by (simp add: trim_def isWhiteSpace_def newline_def js_def)
  have m2: "js ''Food'' \<in> set validCategories"
    by (simp add: validCategories_def)
  have a3: "categoryResponse ?r3 ?d = Inl (Error (js ''fetch failed''))"
    by (simp add: categoryResponse_def canned_runtime_def)
  from categorizeExpense_allow_list [of ?r1 ?d] a1 t1
  have 1: "categorizeExpense ?r1 ?d = Inr (Some (js ''Other''))" by blast
  from categorizeExpense_allow_list [of ?r2 ?d] a2
  have "(categorizeExpense ?r2 ?d = Inr (Some (trim (js '' Food'' @ newline))))
          = (trim (js '' Food'' @ newline) \<in> set validCategories)" by blast
  with t2 m2 have 2: "categorizeExpense ?r2 ?d = Inr (Some (js ''Food''))" by simp
  from categorizeExpense_allow_list [of ?r3 ?d] a3
  have 3: "categorizeExpense ?r3 ?d = Inr (Some (js ''Other''))" by blast
  from 1 2 3 show ?thesis by blast
qed

text \<open>
  C4, as the code has it. \<open>checkUser\<close> returns \<open>null\<close> when there is no session.
  When the lookup finds an application user with the id of the session, that record is
  returned as it is and the database is as it was. When it finds none and the session
  has an email address, \<open>checkUser\<close> calls \<open>create\<close> with the id of the session, its
  first email address, the first and last name in one string and the avatar URL, and
  the outcome of \<open>create\<close> is its outcome; on the database of the specification the
  record is stored and returned.
\<close>

theorem checkUser_find_or_create:
  "checkUser db (Inr None) s = (Inr None, s)
   \<and> (\<forall>existingUser. findUnique db (session_id user) s = Inr (Some existingUser) \<longrightarrow>
          checkUser db (Inr (Some user)) s = (Inr (Some existingUser), s))
   \<and> (\<forall>first rest. findUnique db (session_id user) s = Inr None \<longrightarrow>
          emailAddresses user = first # rest \<longrightarrow>
          checkUser db (Inr (Some user)) s =
            (case create db (newUser user first) s of
               (Inl e, s') \<Rightarrow> (Inl e, s')
             | (Inr created, s') \<Rightarrow> (Inr (Some created), s'))
          \<and> clerkUserId (newUser user first) = session_id user
          \<and> email (newUser user first) = emailAddress first
          \<and> name (newUser user first) =
                template_string (firstName user) @ js '' '' @ template_string (lastName user)
          \<and> imageUrl (newUser user first) = session_imageUrl user)
   \<and> (\<forall>rows first rest. find (\<lambda>r. clerkUserId r = session_id user) rows = None \<longrightarrow>
          emailAddresses user = first # rest \<longrightarrow>
          checkUser table_db (Inr (Some user)) rows =
            (Inr (Some (newUser user first)), rows @ [newUser user first]))"
proof -
  have "checkUser db (Inr None) s = (Inr None, s)"
    by (simp add: checkUser_def)
  moreover have "\<forall>existingUser. findUnique db (session_id user) s = Inr (Some existingUser) \<longrightarrow>
          checkUser db (Inr (Some user)) s = (Inr (Some existingUser), s)"
    by (simp add: checkUser_def)
  moreover have "\<forall>first rest. findUnique db (session_id user) s = Inr None \<longrightarrow>
          emailAddresses user = first # rest \<longrightarrow>
          checkUser db (Inr (Some user)) s =
            (case create db (newUser user first) s of
               (Inl e, s') \<Rightarrow> (Inl e, s')
             | (Inr created, s') \<Rightarrow> (Inr (Some created), s'))
          \<and> clerkUserId (newUser user first) = session_id user
          \<and> email (newUser user first) = emailAddress first
          \<and> name (newUser user first) =
                template_string (firstName user) @ js '' '' @ template_string (lastName user)
          \<and> imageUrl (newUser user first) = session_imageUrl user"
    by (simp add: checkUser_created) (simp add: newUser_def)
  moreover have "\<forall>rows first rest. find (\<lambda>r. clerkUserId r = session_id user) rows = None \<longrightarrow>
          emailAddresses user = first # rest \<longrightarrow>
          checkUser table_db (Inr (Some user)) rows =
            (Inr (Some (newUser user first)), rows @ [newUser user first])"
  proof (intro allI impI)
    fix rows :: "ApplicationUser list" and first :: EmailAddress and rest :: "EmailAddress list"
    assume n: "find (\<lambda>r. clerkUserId r = session_id user) rows = None"
      and e: "emailAddresses user = first # rest"
    have f: "findUnique table_db (session_id user) rows = Inr None"
      using n by (simp add: table_db_simps)
    have k: "clerkUserId (newUser user first) = session_id user" by (simp add: newUser_def)
    have "create table_db (newUser user first) rows = (Inr (newUser user first), rows @ [newUser user first])"
      using n by (simp add: table_db_simps k)
    then show "checkUser table_db (Inr (Some user)) rows =
            (Inr (Some (newUser user first)), rows @ [newUser user first])"
      by (simp add: checkUser_created [OF f e])
  qed
  ultimately show ?thesis by blast
qed

text \<open>
  No session; a user whose record is in the database; a new user on an empty database.
\<close>

theorem checkUser_find_or_create_witness:
  "checkUser table_db (Inr None) [alice_record] = (Inr None, [alice_record])
   \<and> findUnique table_db (session_id alice) [alice_record] = Inr (Some alice_record)
   \<and> checkUser table_db (Inr (Some alice)) [alice_record] = (Inr (Some alice_record), [alice_record])
   \<and> findUnique table_db (session_id alice) [] = Inr None
   \<and> emailAddresses alice = [\<lparr>emailAddress = js ''alice@example.com''\<rparr>]
   \<and> checkUser table_db (Inr (Some alice)) [] =
       (Inr (Some \<lparr>clerkUserId = js ''user_1'', email = js ''alice@example.com'',
                    name = js ''Alice null'',
                    imageUrl = js ''https://img.example.com/alice.png''\<rparr>),
        [\<lparr>clerkUserId = js ''user_1'', email = js ''alice@example.com'',
          name = js ''Alice null'',
          imageUrl = js ''https://img.example.com/alice.png''\<rparr>])"
proof -
  have f1: "findUnique table_db (session_id alice) [alice_record] = Inr (Some alice_record)"
    by (simp add: table_db_simps alice_def alice_record_def)
  have f2: "findUnique table_db (session_id alice) [] = Inr None"
    by (simp add: table_db_simps)
  have n2: "find (\<lambda>r. clerkUserId r = session_id alice) [] = None" by simp
  have e: "emailAddresses alice = [\<lparr>emailAddress = js ''alice@example.com''\<rparr>]"
    by (simp add: alice_def)
  have d: "newUser alice \<lparr>emailAddress = js ''alice@example.com''\<rparr> =
       \<lparr>clerkUserId = js ''user_1'', email = js ''alice@example.com'',
                    name = js ''Alice null'',
                    imageUrl = js ''https://img.example.com/alice.png''\<rparr>"
    by (simp add: newUser_def alice_def template_string_def js_def)
  from checkUser_find_or_create [of table_db "[alice_record]" alice]
  have 1: "checkUser table_db (Inr None) [alice_record] = (Inr None, [alice_record])" by blast
  from checkUser_find_or_create [of table_db "[alice_record]" alice] f1
  have 2: "checkUser table_db (Inr (Some alice)) [alice_record] = (Inr (Some alice_record), [alice_record])"
    by blast
  from checkUser_find_or_create [of table_db "[]" alice] n2 e
  have "checkUser table_db (Inr (Some alice)) [] =
            (Inr (Some (newUser alice \<lparr>emailAddress = js ''alice@example.com''\<rparr>)),
             [] @ [newUser alice \<lparr>emailAddress = js ''alice@example.com''\<rparr>])"
    by blast
  with d have 3: "checkUser table_db (Inr (Some alice)) [] =
       (Inr (Some \<lparr>clerkUserId = js ''user_1'', email = js ''alice@example.com'',
                    name = js ''Alice null'',
                    imageUrl = js ''https://img.example.com/alice.png''\<rparr>),
        [\<lparr>clerkUserId = js ''user_1'', email = js ''alice@example.com'',
          name = js ''Alice null'',
          imageUrl = js ''https://img.example.com/alice.png''\<rparr>])"
    by simp
  from 1 f1 2 f2 e 3 show ?thesis by blast
qed

text \<open>
  C4 as stated fails: a session exists, no application user exists, and the session has
  no email address; no record is created or returned, \<open>checkUser\<close> throws.
\<close>

theorem checkUser_find_or_create_counterexample:
  "findUnique table_db (session_id alice_without_email) [] = Inr None
   \<and> emailAddresses alice_without_email = []
   \<and> checkUser table_db (Inr (Some alice_without_email)) [] = (Inl TypeError, [])"
  by (simp add: checkUser_def table_db_def alice_without_email_def alice_def)

text \<open>
  C5, as the code has it. \<open>generateExpenseInsights\<close> always returns a list, and the
  list is empty exactly when the model call succeeds with a non-empty text that parses
  as the empty JSON array; in every other case it is non-empty.
\<close>

theorem generateExpenseInsights_empty_iff:
  "\<exists>ys. generateExpenseInsights rt expenses = Inr ys
      \<and> (ys = []) =
          (\<exists>t. insightsResponse rt expenses = Inr (Some t) \<and> t \<noteq> []
              \<and> JSON_parse rt t = Inr (JArray []))"
proof -
  from insights_fallback_or_array [of rt expenses]
  show ?thesis
  proof
    assume fb: "generateExpenseInsights rt expenses = Inr fallbackInsights"
    have "\<not> (\<exists>t. insightsResponse rt expenses = Inr (Some t) \<and> t \<noteq> []
              \<and> JSON_parse rt t = Inr (JArray []))"
    proof
      assume "\<exists>t. insightsResponse rt expenses = Inr (Some t) \<and> t \<noteq> []
              \<and> JSON_parse rt t = Inr (JArray [])"
      then obtain t where "insightsResponse rt expenses = Inr (Some t)" "t \<noteq> []"
        "JSON_parse rt t = Inr (JArray [])" by blast
      from insights_on_array [OF this] have "generateExpenseInsights rt expenses = Inr []" by simp
      with fb fallback_nonempty show False by simp
    qed
    with fb fallback_nonempty show ?thesis by simp
  next
    assume "\<exists>t xs ys. insightsResponse rt expenses = Inr (Some t) \<and> t \<noteq> []
         \<and> JSON_parse rt t = Inr (JArray xs)
         \<and> map_from (formatInsight rt) 0 xs = Inr ys \<and> generateExpenseInsights rt expenses = Inr ys"
    then obtain t xs ys where t: "insightsResponse rt expenses = Inr (Some t)" "t \<noteq> []"
      and p: "JSON_parse rt t = Inr (JArray xs)"
      and m: "map_from (formatInsight rt) 0 xs = Inr ys"
      and g: "generateExpenseInsights rt expenses = Inr ys" by blast
    from map_from_length [OF m] have "(ys = []) = (xs = [])" by auto
    with t p g show ?thesis by auto
  qed
qed

text \<open>
  C5 as stated fails: the model answers \<open>[]\<close>, which parses as an array of length
  0, and the list returned is empty.
\<close>

theorem generateExpenseInsights_empty_counterexample:
  "insightsResponse (canned_runtime (Inr (Some (js ''[]''))) (js ''[]'') (JArray [])) [lunch] = Inr (Some (js ''[]''))
   \<and> JSON_parse (canned_runtime (Inr (Some (js ''[]''))) (js ''[]'') (JArray [])) (js ''[]'') = Inr (JArray [])
   \<and> generateExpenseInsights (canned_runtime (Inr (Some (js ''[]''))) (js ''[]'') (JArray [])) [lunch] = Inr []"
  by (simp add: generateExpenseInsights_def generateExpenseInsights_try_def insightsResponse_def
      canned_runtime_def js_def)

text \<open>
  C6, as the code has it. When the model call succeeds with a non-empty text,
  \<open>generateAIAnswer\<close> returns that text trimmed; the result is empty exactly when
  every code unit of the text is whitespace. When the call fails, or the text is
  undefined or empty, it returns the fixed apology string.
\<close>

theorem generateAIAnswer_trimmed:
  "(\<forall>response. answerResponse rt question context' = Inr (Some response) \<longrightarrow> response \<noteq> [] \<longrightarrow>
        generateAIAnswer rt question context' = Inr (trim response)
        \<and> (trim response = []) = (\<forall>c \<in> set response. isWhiteSpace c))
   \<and> (\<forall>e. answerResponse rt question context' = Inl e \<longrightarrow>
        generateAIAnswer rt question context' = Inr apology)
   \<and> (answerResponse rt question context' = Inr None \<longrightarrow>
        generateAIAnswer rt question context' = Inr apology)
   \<and> (answerResponse rt question context' = Inr (Some []) \<longrightarrow>
        generateAIAnswer rt question context' = Inr apology)
   \<and> apology \<noteq> []"
proof -
  have "\<forall>response. answerResponse rt question context' = Inr (Some response) \<longrightarrow> response \<noteq> [] \<longrightarrow>
        generateAIAnswer rt question context' = Inr (trim response)
        \<and> (trim response = []) = (\<forall>c \<in> set response. isWhiteSpace c)"
    by (simp add: generateAIAnswer_def generateAIAnswer_try_def trim_empty_iff)
  moreover have "\<forall>e. answerResponse rt question context' = Inl e \<longrightarrow>
        generateAIAnswer rt question context' = Inr apology"
    by (simp add: generateAIAnswer_def generateAIAnswer_try_def)
  moreover have "answerResponse rt question context' = Inr None \<longrightarrow>
        generateAIAnswer rt question context' = Inr apology"
    by (simp add: generateAIAnswer_def generateAIAnswer_try_def)
  moreover have "answerResponse rt question context' = Inr (Some []) \<longrightarrow>
        generateAIAnswer rt question context' = Inr apology"
    by (simp add: generateAIAnswer_def generateAIAnswer_try_def)
  moreover have "apology \<noteq> []"
    by (simp add: apology_def js_def)
  ultimately show ?thesis by blast
qed

text \<open>
  An answer within whitespace is returned trimmed, and a failing call gives the
  apology.
\<close>

theorem generateAIAnswer_trimmed_witness:
  "generateAIAnswer (canned_runtime (Inr (Some (js ''  Eat out less.'' @ newline))) [] JNull)
      (js ''How can I save?'') [lunch] = Inr (js ''Eat out less.'')
   \<and> generateAIAnswer (canned_runtime (Inl (Error (js ''fetch failed''))) [] JNull)
      (js ''How can I save?'') [lunch] = Inr apology
   \<and> generateAIAnswer (canned_runtime (Inr None) [] JNull)
      (js ''How can I save?'') [lunch] = Inr apology
   \<and> generateAIAnswer (canned_runtime (Inr (Some [])) [] JNull)
      (js ''How can I save?'') [lunch] = Inr apology"
proof -
  let ?q = "js ''How can I save?''"
  let ?t = "js ''  Eat out less.'' @ newline"
  let ?r1 = "canned_runtime (Inr (Some ?t)) [] JNull"
  let ?r2 = "canned_runtime (Inl (Error (js ''fetch failed''))) [] JNull"
  let ?r3 = "canned_runtime (Inr None) [] JNull"
  let ?r4 = "canned_runtime (Inr (Some [])) [] JNull"
  have a1: "answerResponse ?r1 ?q [lunch] = Inr (Some ?t)"
    by (simp add: answerResponse_def canned_runtime_def)
  have n1: "?t \<noteq> []" by (simp add: newline_def)
  have t1: "trim ?t = js ''Eat out less.''"
    by (simp add: trim_def isWhiteSpace_def newline_def js_def)
  have a2: "answerResponse ?r2 ?q [lunch] = Inl (Error (js ''fetch failed''))"
    by (simp add: answerResponse_def canned_runtime_def)
  have a3: "answerResponse ?r3 ?q [lunch] = Inr None"
    by (simp add: answerResponse_def canned_runtime_def)
  have a4: "answerResponse ?r4 ?q [lunch] = Inr (Some [])"
    by (simp add: answerResponse_def canned_runtime_def)
  from generateAIAnswer_trimmed [of ?r1 ?q "[lunch]"] a1 n1
  have "generateAIAnswer ?r1 ?q [lunch] = Inr (trim ?t)" by blast
  with t1 have 1: "generateAIAnswer ?r1 ?q [lunch] = Inr (js ''Eat out less.'')" by simp
  from generateAIAnswer_trimmed [of ?r2 ?q "[lunch]"] a2
  have 2: "generateAIAnswer ?r2 ?q [lunch] = Inr apology" by blast
  from generateAIAnswer_trimmed [of ?r3 ?q "[lunch]"] a3
  have 3: "generateAIAnswer ?r3 ?q [lunch] = Inr apology" by blast
  from generateAIAnswer_trimmed [of ?r4 ?q "[lunch]"] a4
  have 4: "generateAIAnswer ?r4 ?q [lunch] = Inr apology" by blast
  from 1 2 3 4 show ?thesis by blast
qed

text \<open>
  C6 as stated fails: the call succeeds with a text of one space, and the answer
  returned is the empty string.
\<close>

theorem generateAIAnswer_blank_counterexample:
  "answerResponse (canned_runtime (Inr (Some (js '' ''))) [] JNull) (js ''How can I save?'') [lunch]
      = Inr (Some (js '' ''))
   \<and> js '' '' \<noteq> []
   \<and> generateAIAnswer (canned_runtime (Inr (Some (js '' ''))) [] JNull) (js ''How can I save?'') [lunch]
      = Inr []"
  by (simp add: generateAIAnswer_def generateAIAnswer_try_def answerResponse_def canned_runtime_def
      trim_def isWhiteSpace_def js_def)

text \<open>
  C7. An error thrown by \<open>findUnique\<close> or by \<open>create\<close> is the outcome of
  \<open>checkUser\<close>: nothing catches it and no value stands in for it. The three
  operations on the generative model return a value on every runtime.
\<close>

theorem checkUser_propagates:
  "(\<forall>e. findUnique db (session_id user) s = Inl e \<longrightarrow>
        checkUser db (Inr (Some user)) s = (Inl e, s))
   \<and> (\<forall>e first rest s'. findUnique db (session_id user) s = Inr None \<longrightarrow>
          emailAddresses user = first # rest \<longrightarrow>
          create db (newUser user first) s = (Inl e, s') \<longrightarrow>
          checkUser db (Inr (Some user)) s = (Inl e, s'))
   \<and> (\<exists>insights. generateExpenseInsights rt expenses = Inr insights)
   \<and> (\<exists>category'. categorizeExpense rt description' = Inr category')
   \<and> (\<exists>answer. generateAIAnswer rt question context' = Inr answer)"
proof -
  have "\<forall>e. findUnique db (session_id user) s = Inl e \<longrightarrow>
        checkUser db (Inr (Some user)) s = (Inl e, s)"
    by (simp add: checkUser_def)
  moreover have "\<forall>e first rest s'. findUnique db (session_id user) s = Inr None \<longrightarrow>
          emailAddresses user = first # rest \<longrightarrow>
          create db (newUser user first) s = (Inl e, s') \<longrightarrow>
          checkUser db (Inr (Some user)) s = (Inl e, s')"
    by (simp add: checkUser_created)
  moreover have "\<exists>insights. generateExpenseInsights rt expenses = Inr insights"
    by (rule insights_total)
  moreover have "\<exists>category'. categorizeExpense rt description' = Inr category'"
    by (simp add: categorizeExpense_def split: sum.splits)
  moreover have "\<exists>answer. generateAIAnswer rt question context' = Inr answer"
    by (simp add: generateAIAnswer_def split: sum.splits)
  ultimately show ?thesis by blast
qed

text \<open>
  A database that cannot be reached fails the lookup; one that refuses writes fails
  the creation of the record of a new user. Both errors are the outcome.
\<close>

theorem checkUser_propagates_witness:
  "findUnique unreachable_db (session_id alice) [] = Inl (Error (js ''Cannot reach database server''))
   \<and> checkUser unreachable_db (Inr (Some alice)) [] =
        (Inl (Error (js ''Cannot reach database server'')), [])
   \<and> findUnique readonly_db (session_id alice) [bob_record] = Inr None
   \<and> create readonly_db (newUser alice \<lparr>emailAddress = js ''alice@example.com''\<rparr>) [bob_record] =
        (Inl (Error (js ''Database is read-only'')), [bob_record])
   \<and> checkUser readonly_db (Inr (Some alice)) [bob_record] =
        (Inl (Error (js ''Database is read-only'')), [bob_record])"
proof -
  have f1: "findUnique unreachable_db (session_id alice) [] = Inl (Error (js ''Cannot reach database server''))"
    by (simp add: unreachable_db_def)
  have f2: "findUnique readonly_db (session_id alice) [bob_record] = Inr None"
    by (simp add: readonly_db_def table_db_def alice_def bob_record_def js_def)
  have e: "emailAddresses alice = \<lparr>emailAddress = js ''alice@example.com''\<rparr> # []"
    by (simp add: alice_def)
  have c: "create readonly_db (newUser alice \<lparr>emailAddress = js ''alice@example.com''\<rparr>) [bob_record] =
        (Inl (Error (js ''Database is read-only'')), [bob_record])"
    by (simp add: readonly_db_def)
  from checkUser_propagates [of unreachable_db alice "[]"] f1
  have 1: "checkUser unreachable_db (Inr (Some alice)) [] =
        (Inl (Error (js ''Cannot reach database server'')), [])" by blast
  from checkUser_propagates [of readonly_db alice "[bob_record]"] f2 e c
  have 2: "checkUser readonly_db (Inr (Some alice)) [bob_record] =
        (Inl (Error (js ''Database is read-only'')), [bob_record])" by blast
  from f1 1 f2 c 2 show ?thesis by blast
qed

text \<open>
  C8. If a session exists, the lookup finds no application user and the session has no
  email address, \<open>checkUser\<close> throws a TypeError: it does not return \<open>null\<close>, and the
  database is as it was, no record is created.
\<close>

theorem checkUser_without_email:
  assumes "findUnique db (session_id user) s = Inr None" and "emailAddresses user = []"
  shows "checkUser db (Inr (Some user)) s = (Inl TypeError, s)"
  using assms by (simp add: checkUser_def)

text \<open>A new user without an email address, on a database that holds another user.\<close>

theorem checkUser_without_email_witness:
  "findUnique table_db (session_id alice_without_email) [bob_record] = Inr None
   \<and> emailAddresses alice_without_email = []
   \<and> checkUser table_db (Inr (Some alice_without_email)) [bob_record] = (Inl TypeError, [bob_record])"
proof -
  have f: "findUnique table_db (session_id alice_without_email) [bob_record] = Inr None"
    by (simp add: table_db_def alice_without_email_def alice_def bob_record_def js_def)
  have e: "emailAddresses alice_without_email = []"
    by (simp add: alice_without_email_def)
  from checkUser_without_email [OF f e] f e show ?thesis by blast
qed

text \<open>
  C9, as the code has it. When the model call succeeds, the response parses as a JSON
  array and no element of the array is \<open>null\<close>, the list returned has the length of
  the array and its order: the \<open>i\<close>-th insight is the callback's result on the
  \<open>i\<close>-th element with the index \<open>i\<close>, and its id is \<open>ai-\<close>, the reading of the
  clock in that call, \<open>-\<close> and \<open>i\<close>.
\<close>

theorem generateExpenseInsights_order:
  assumes "insightsResponse rt expenses = Inr (Some t)" and "t \<noteq> []"
    and "JSON_parse rt t = Inr (JArray xs)" and "JNull \<notin> set xs"
  shows "\<exists>ys. generateExpenseInsights rt expenses = Inr ys
     \<and> length ys = length xs
     \<and> (\<forall>i < length xs.
          formatInsight rt (xs ! i) i = Inr (ys ! i)
          \<and> insight_id (ys ! i) =
              js ''ai-'' @ integer_to_string (Date_now rt i) @ js ''-'' @ digits i)"
proof -
  from map_from_format_total [OF assms(4), of rt 0]
  obtain ys where m: "map_from (formatInsight rt) 0 xs = Inr ys" by blast
  with insights_on_array [OF assms(1-3)]
  have g: "generateExpenseInsights rt expenses = Inr ys" by simp
  have len: "length ys = length xs" by (rule map_from_length [OF m])
  have "formatInsight rt (xs ! i) i = Inr (ys ! i)
      \<and> insight_id (ys ! i) = js ''ai-'' @ integer_to_string (Date_now rt i) @ js ''-'' @ digits i"
    if "i < length xs" for i
  proof -
    from map_from_nth [OF m that] have f: "formatInsight rt (xs ! i) i = Inr (ys ! i)" by simp
    from formatInsight_Inr [OF f] f show ?thesis by simp
  qed
  with g len show ?thesis by blast
qed

text \<open>The response \<open>[{"type":"tip","confidence":0},7]\<close> gives two insights, in order.\<close>

theorem generateExpenseInsights_order_witness:
  "insightsResponse tip_runtime [lunch] = Inr (Some tip_text) \<and> tip_text \<noteq> []
   \<and> JSON_parse tip_runtime tip_text = Inr (JArray tip_array) \<and> JNull \<notin> set tip_array
   \<and> (\<exists>ys. generateExpenseInsights tip_runtime [lunch] = Inr ys \<and> length ys = 2
        \<and> formatInsight tip_runtime (tip_array ! 0) 0 = Inr (ys ! 0)
        \<and> formatInsight tip_runtime (tip_array ! 1) 1 = Inr (ys ! 1)
        \<and> insight_id (ys ! 0) = js ''ai-1704067200000-0''
        \<and> insight_id (ys ! 1) = js ''ai-1704067200001-1'')"
proof -
  have h1: "insightsResponse tip_runtime [lunch] = Inr (Some tip_text)"
    by (simp add: insightsResponse_def tip_runtime_def canned_runtime_def)
  have h2: "tip_text \<noteq> []"
    by (simp add: tip_text_def js_def)
  have h3: "JSON_parse tip_runtime tip_text = Inr (JArray tip_array)"
    by (simp add: tip_runtime_def canned_runtime_def)
  have nn: "JNull \<notin> set tip_array"
    by (simp add: tip_array_def)
  have l: "length tip_array = 2" by (simp add: tip_array_def)
  have t0: "js ''ai-'' @ integer_to_string (Date_now tip_runtime 0) @ js ''-'' @ digits 0
              = js ''ai-1704067200000-0''"
    by (simp add: tip_runtime_def canned_runtime_def integer_to_string_def digits_small
        digits_big js_def)
  have t1: "js ''ai-'' @ integer_to_string (Date_now tip_runtime 1) @ js ''-'' @ digits 1
              = js ''ai-1704067200001-1''"
    by (simp add: tip_runtime_def canned_runtime_def integer_to_string_def digits_small
        digits_big js_def)
  from generateExpenseInsights_order [OF h1 h2 h3 nn] l
  obtain ys where ys: "generateExpenseInsights tip_runtime [lunch] = Inr ys" "length ys = 2"
    and f: "\<forall>i < 2. formatInsight tip_runtime (tip_array ! i) i = Inr (ys ! i)
          \<and> insight_id (ys ! i) =
              js ''ai-'' @ integer_to_string (Date_now tip_runtime i) @ js ''-'' @ digits i"
    by auto
  from f have "formatInsight tip_runtime (tip_array ! 0) 0 = Inr (ys ! 0)"
    "formatInsight tip_runtime (tip_array ! 1) 1 = Inr (ys ! 1)"
    "insight_id (ys ! 0) = js ''ai-1704067200000-0''"
    "insight_id (ys ! 1) = js ''ai-1704067200001-1''"
    using t0 t1 by simp_all
  with ys h1 h2 h3 nn show ?thesis by blast
qed

text \<open>
  C9 as stated fails: the response \<open>[null,{}]\<close> parses as an array of length 2; the
  callback throws on \<open>null\<close> and the list returned is the fallback list, of length 1
  and with the id \<open>fallback-1\<close>.
\<close>

theorem generateExpenseInsights_order_counterexample:
  "insightsResponse null_runtime [lunch] = Inr (Some null_text)
   \<and> JSON_parse null_runtime null_text = Inr (JArray null_array)
   \<and> length null_array = 2
   \<and> generateExpenseInsights null_runtime [lunch] = Inr fallbackInsights
   \<and> length fallbackInsights = 1
   \<and> insight_id (fallbackInsights ! 0) = js ''fallback-1''"
proof -
  have h1: "insightsResponse null_runtime [lunch] = Inr (Some null_text)"
    by (simp add: insightsResponse_def null_runtime_def canned_runtime_def)
  have h2: "null_text \<noteq> []"
    by (simp add: null_text_def js_def)
  have h3: "JSON_parse null_runtime null_text = Inr (JArray null_array)"
    by (simp add: null_runtime_def canned_runtime_def)
  have g: "generateExpenseInsights null_runtime [lunch] = Inr fallbackInsights"
    by (simp add: insights_on_array [OF h1 h2 h3] null_array_def formatInsight_null)
  show ?thesis using h1 h3 g by (simp add: null_array_def fallbackInsights_def)
qed

text \<open>
  C10, as the code has it. On the creation path the record given to \<open>create\<close> has as
  its name the first name, one space and the last name, each printed as a template
  literal prints it. A name part that is \<open>null\<close> is printed as the text \<open>null\<close>, so
  the name then contains \<open>null\<close>; a name part that is absent (\<open>undefined\<close>) is
  printed as the text \<open>undefined\<close>. On the database of the specification this is the
  name of the record stored and returned.
\<close>

theorem checkUser_name_interpolation:
  "(\<forall>first rest. findUnique db (session_id user) s = Inr None \<longrightarrow>
        emailAddresses user = first # rest \<longrightarrow>
        checkUser db (Inr (Some user)) s =
          (case create db (newUser user first) s of
             (Inl e, s') \<Rightarrow> (Inl e, s')
           | (Inr created, s') \<Rightarrow> (Inr (Some created), s')))
   \<and> (\<forall>rows first rest. find (\<lambda>r. clerkUserId r = session_id user) rows = None \<longrightarrow>
        emailAddresses user = first # rest \<longrightarrow>
        (\<exists>created. checkUser table_db (Inr (Some user)) rows = (Inr (Some created), rows @ [created])
            \<and> name created = name (newUser user first)))
   \<and> (\<forall>first. name (newUser user first) =
          template_string (firstName user) @ js '' '' @ template_string (lastName user))
   \<and> template_string Null = js ''null''
   \<and> template_string Undefined = js ''undefined''
   \<and> (\<forall>t. template_string (Str t) = t)
   \<and> (\<forall>first. firstName user = Null \<or> lastName user = Null \<longrightarrow>
          includes_text (name (newUser user first)) (js ''null''))
   \<and> (\<forall>first. firstName user = Null \<longrightarrow> lastName user = Null \<longrightarrow>
          name (newUser user first) = js ''null null'')
   \<and> (\<forall>first. firstName user = Undefined \<longrightarrow> lastName user = Undefined \<longrightarrow>
          name (newUser user first) = js ''undefined undefined'')
   \<and> (\<forall>first f l. firstName user = Str f \<longrightarrow> lastName user = Str l \<longrightarrow>
          name (newUser user first) = f @ js '' '' @ l)"
proof -
  have "\<forall>first rest. findUnique db (session_id user) s = Inr None \<longrightarrow>
        emailAddresses user = first # rest \<longrightarrow>
        checkUser db (Inr (Some user)) s =
          (case create db (newUser user first) s of
             (Inl e, s') \<Rightarrow> (Inl e, s')
           | (Inr created, s') \<Rightarrow> (Inr (Some created), s'))"
    by (simp add: checkUser_created)
  moreover have "\<forall>rows first rest. find (\<lambda>r. clerkUserId r = session_id user) rows = None \<longrightarrow>
        emailAddresses user = first # rest \<longrightarrow>
        (\<exists>created. checkUser table_db (Inr (Some user)) rows = (Inr (Some created), rows @ [created])
            \<and> name created = name (newUser user first))"
    by (simp add: checkUser_on_table)
  moreover have n: "\<forall>first. name (newUser user first) =
          template_string (firstName user) @ js '' '' @ template_string (lastName user)"
    by (simp add: newUser_def)
  moreover have "template_string Null = js ''null''" "template_string Undefined = js ''undefined''"
    "\<forall>t. template_string (Str t) = t"
    by (simp_all add: template_string_def)
  moreover have "\<forall>first. firstName user = Null \<or> lastName user = Null \<longrightarrow>
          includes_text (name (newUser user first)) (js ''null'')"
  proof (intro allI impI)
    fix first :: EmailAddress
    assume "firstName user = Null \<or> lastName user = Null"
    then show "includes_text (name (newUser user first)) (js ''null'')"
    proof
      assume "firstName user = Null"
      then have "name (newUser user first) =
          [] @ js ''null'' @ (js '' '' @ template_string (lastName user))"
        by (simp add: n template_string_def)
      then show ?thesis by (simp only: includes_text_infix)
    next
      assume "lastName user = Null"
      then have "name (newUser user first) =
          (template_string (firstName user) @ js '' '') @ js ''null'' @ []"
        by (simp add: n template_string_def)
      then show ?thesis by (simp only: includes_text_infix)
    qed
  qed
  moreover have "\<forall>first. firstName user = Null \<longrightarrow> lastName user = Null \<longrightarrow>
          name (newUser user first) = js ''null null''"
    by (simp add: newUser_def template_string_def js_def)
  moreover have "\<forall>first. firstName user = Undefined \<longrightarrow> lastName user = Undefined \<longrightarrow>
          name (newUser user first) = js ''undefined undefined''"
    by (simp add: newUser_def template_string_def js_def)
  moreover have "\<forall>first f l. firstName user = Str f \<longrightarrow> lastName user = Str l \<longrightarrow>
          name (newUser user first) = f @ js '' '' @ l"
    by (simp add: newUser_def template_string_def)
  ultimately show ?thesis by blast
qed

text \<open>
  A new user with the first name \<open>Alice\<close> and the last name \<open>null\<close> is stored as
  \<open>Alice null\<close>; with both name parts \<open>null\<close>, as \<open>null null\<close>.
\<close>

theorem checkUser_name_interpolation_witness:
  "findUnique table_db (session_id alice) [bob_record] = Inr None
   \<and> emailAddresses alice = [\<lparr>emailAddress = js ''alice@example.com''\<rparr>]
   \<and> firstName alice = Str (js ''Alice'') \<and> lastName alice = Null
   \<and> (\<exists>created. checkUser table_db (Inr (Some alice)) [bob_record]
                    = (Inr (Some created), [bob_record, created])
          \<and> name created = js ''Alice null''
          \<and> includes_text (name created) (js ''null''))
   \<and> firstName nameless = Null \<and> lastName nameless = Null
   \<and> (\<exists>created. checkUser table_db (Inr (Some nameless)) [bob_record]
                    = (Inr (Some created), [bob_record, created])
          \<and> name created = js ''null null'')"
proof -
  let ?m = "\<lparr>emailAddress = js ''alice@example.com''\<rparr>"
  have ne: "js ''user_2'' \<noteq> js ''user_1''" by (simp add: js_def)
  have f1: "findUnique table_db (session_id alice) [bob_record] = Inr None"
    using ne by (simp add: table_db_def alice_def bob_record_def)
  have n1: "find (\<lambda>r. clerkUserId r = session_id alice) [bob_record] = None"
    using ne by (simp add: alice_def bob_record_def)
  have n2: "find (\<lambda>r. clerkUserId r = session_id nameless) [bob_record] = None"
    using ne by (simp add: nameless_def alice_def bob_record_def)
  have e1: "emailAddresses alice = [?m]" by (simp add: alice_def)
  have e2: "emailAddresses nameless = [?m]" by (simp add: nameless_def alice_def)
  have a: "firstName alice = Str (js ''Alice'')" "lastName alice = Null"
    by (simp_all add: alice_def)
  have b: "firstName nameless = Null" "lastName nameless = Null"
    by (simp_all add: nameless_def alice_def)
  have s: "js ''Alice'' @ js '' '' @ js ''null'' = js ''Alice null''" by (simp add: js_def)
  note t = checkUser_name_interpolation [of table_db alice "[bob_record]"]
  note u = checkUser_name_interpolation [of table_db nameless "[bob_record]"]
  from t n1 e1
  obtain c1 where c1: "checkUser table_db (Inr (Some alice)) [bob_record]
                    = (Inr (Some c1), [bob_record] @ [c1])" "name c1 = name (newUser alice ?m)"
    by blast
  from t have "name (newUser alice ?m) =
      template_string (firstName alice) @ js '' '' @ template_string (lastName alice)"
    and "template_string Null = js ''null''" and "template_string (Str (js ''Alice'')) = js ''Alice''"
    by blast+
  with a s have v: "name (newUser alice ?m) = js ''Alice null''" by simp
  from t a have i: "includes_text (name (newUser alice ?m)) (js ''null'')" by blast
  from c1 v i have 1: "\<exists>created. checkUser table_db (Inr (Some alice)) [bob_record]
                    = (Inr (Some created), [bob_record, created])
          \<and> name created = js ''Alice null''
          \<and> includes_text (name created) (js ''null'')" by simp
  from u n2 e2
  obtain c2 where c2: "checkUser table_db (Inr (Some nameless)) [bob_record]
                    = (Inr (Some c2), [bob_record] @ [c2])" "name c2 = name (newUser nameless ?m)"
    by blast
  from u b have "name (newUser nameless ?m) = js ''null null''" by blast
  with c2 have 2: "\<exists>created. checkUser table_db (Inr (Some nameless)) [bob_record]
                    = (Inr (Some created), [bob_record, created])
          \<and> name created = js ''null null''" by simp
  from f1 e1 a 1 b 2 show ?thesis by blast
qed

text \<open>
  C10 as stated fails for an absent name part: a session user object without
  \<open>firstName\<close> and \<open>lastName\<close> is stored under the name \<open>undefined undefined\<close>,
  in which the text \<open>null\<close> does not occur.
\<close>

theorem checkUser_name_interpolation_counterexample:
  "findUnique table_db (session_id unnamed) [bob_record] = Inr None
   \<and> firstName unnamed = Undefined \<and> lastName unnamed = Undefined
   \<and> checkUser table_db (Inr (Some unnamed)) [bob_record] =
       (Inr (Some \<lparr>clerkUserId = js ''user_1'', email = js ''alice@example.com'',
                    name = js ''undefined undefined'',
                    imageUrl = js ''https://img.example.com/alice.png''\<rparr>),
        [bob_record,
         \<lparr>clerkUserId = js ''user_1'', email = js ''alice@example.com'',
          name = js ''undefined undefined'',
          imageUrl = js ''https://img.example.com/alice.png''\<rparr>])
   \<and> \<not> includes_text (js ''undefined undefined'') (js ''null'')"
proof -
  let ?m = "\<lparr>emailAddress = js ''alice@example.com''\<rparr>"
  have ne: "js ''user_2'' \<noteq> js ''user_1''" by (simp add: js_def)
  have f: "findUnique table_db (session_id unnamed) [bob_record] = Inr None"
    using ne by (simp add: table_db_def unnamed_def alice_def bob_record_def)
  have n: "find (\<lambda>r. clerkUserId r = session_id unnamed) [bob_record] = None"
    using ne by (simp add: unnamed_def alice_def bob_record_def)
  have e: "emailAddresses unnamed = ?m # []" by (simp add: unnamed_def alice_def)
  have p: "firstName unnamed = Undefined" "lastName unnamed = Undefined"
    by (simp_all add: unnamed_def)
  have d: "newUser unnamed ?m =
       \<lparr>clerkUserId = js ''user_1'', email = js ''alice@example.com'',
         name = js ''undefined undefined'',
         imageUrl = js ''https://img.example.com/alice.png''\<rparr>"
    by (simp add: newUser_def unnamed_def alice_def template_string_def js_def)
  have c: "checkUser table_db (Inr (Some unnamed)) [bob_record] =
       (Inr (Some (newUser unnamed ?m)), [bob_record] @ [newUser unnamed ?m])"
    by (rule checkUser_on_table [OF n e])
  have i: "\<not> includes_text (js ''undefined undefined'') (js ''null'')"
    by (simp add: js_def)
  from f p c d i show ?thesis by simp
qed

end
